theory Spec2Isabelle
  imports Complex_Main "HOL-Library.Sublist"
begin

section \<open>Values exchanged with the libraries\<close>

text \<open>
  The worker (src/worker/main.py) talks to three libraries: \<^verbatim>\<open>json\<close>, \<^verbatim>\<open>pymongo\<close> and
  \<^verbatim>\<open>pika\<close>, and to a Keras model. Their answers are inputs of the model below; what the
  repository's own code does with each answer is translated line by line.

  Exceptions are values. Only the classes that the handlers of the source tell apart
  are kept distinct.
\<close>

datatype exn =
    JSONDecodeError
  | UnicodeDecodeError
  | AttributeError
  | DuplicateKeyError
  | PyMongoError
  | WriteError
  | AMQPConnectionError
  | AMQPChannelError
  | PublishFailed
  | OtherError

text \<open>What \<^verbatim>\<open>json.loads\<close> returns.\<close>

datatype json =
    JNull
  | JBool bool
  | JNumber real
  | JString string
  | JArray "json list"
  | JObject "(string \<times> json) list"

text \<open>\<^verbatim>\<open>message.get(key, default)\<close> on a dict, given by its items.\<close>

definition dict_get :: "(string \<times> json) list \<Rightarrow> string \<Rightarrow> json \<Rightarrow> json" where
  "dict_get kvs k dflt = (case map_of kvs k of Some v \<Rightarrow> v | None \<Rightarrow> dflt)"

section \<open>The result collection\<close>

text \<open>
  The document built in \<^verbatim>\<open>process_message\<close> (lines 136-146), field by field, and before
  them the key \<^verbatim>\<open>_id\<close>: the worker's dict has none, every stored document has one.
\<close>

record result_doc =
  d_oid :: "nat option"
  d_job_id :: json
  d_text :: json
  d_sentiment :: string
  d_score :: real
  d_timestamp :: json
  d_processed_at :: string
  d_worker_id :: string
  d_processing_time :: real
  d_status :: string

text \<open>
  The collection \<^verbatim>\<open>sentiment_results\<close>: its documents in insertion order, and whether the
  unique index on \<^verbatim>\<open>job_id\<close> exists (it is created by the API's
  \<^verbatim>\<open>DatabaseService._connect\<close>, src/api/services/database_service.py line 32; the worker's
  own \<^verbatim>\<open>_connect\<close> creates none). The index on \<^verbatim>\<open>_id\<close> always exists.
\<close>

record store =
  docs :: "result_doc list"
  unique_job_id :: bool

text \<open>
  The three collection calls the worker makes. Each is one atomic operation of the
  server; the flag says that the call raised for a reason that lies outside the
  collection's content: the server could not be reached, or the driver could not encode
  a value of the query or of the document (an integer beyond 64 bits, say). Whatever its
  class, that exception is written \<^verbatim>\<open>PyMongoError\<close>: no handler of the source tells the
  classes apart.

  The worker puts the \<^verbatim>\<open>job_id\<close> of the message into the query document as it is
  (main.py line 116, database\_service.py line 49). A string matches a stored string equal
  to it, or a stored array that holds it. Any other value is read by the server in its
  query language (an object with \<^verbatim>\<open>$\<close> keys is an operator, an array is compared as a
  whole or as an element, null also matches a missing field, ...): that is left open here,
  as a function of the query value and the stored value about which nothing is assumed.
\<close>

definition other_query :: "json \<Rightarrow> json \<Rightarrow> bool" where
  "other_query = undefined"

definition query_match :: "json \<Rightarrow> json \<Rightarrow> bool" where
  "query_match q v =
     (case q of
        JString s \<Rightarrow>
          (case v of
             JString t \<Rightarrow> t = s
           | JArray xs \<Rightarrow> JString s \<in> set xs
           | _ \<Rightarrow> False)
      | _ \<Rightarrow> other_query q v)"

definition find_one :: "bool \<Rightarrow> store \<Rightarrow> json \<Rightarrow> exn + result_doc option" where
  "find_one fails s j =
     (if fails then Inl PyMongoError
      else Inr (find (\<lambda>d. query_match j (d_job_id d)) (docs s)))"

text \<open>
  The unique index on \<^verbatim>\<open>job_id\<close> holds one key per stored value, and one key per element
  of a stored array. A new string collides with a stored value exactly when it would match
  it as a query; for a new value of any other kind the collision is left open in the
  same way.
\<close>

definition other_key_conflict :: "json \<times> json \<Rightarrow> bool" where
  "other_key_conflict = undefined"

definition key_conflict :: "json \<Rightarrow> json \<Rightarrow> bool" where
  "key_conflict v_new v_old =
     (case v_new of
        JString s \<Rightarrow> query_match v_new v_old
      | _ \<Rightarrow> other_key_conflict (v_new, v_old))"

text \<open>An \<^verbatim>\<open>ObjectId\<close> that no document of the collection carries.\<close>

definition oid_number :: "result_doc \<Rightarrow> nat" where
  "oid_number d = (case d_oid d of Some n \<Rightarrow> n | None \<Rightarrow> 0)"

definition fresh_oid :: "store \<Rightarrow> nat" where
  "fresh_oid s = Suc (fold max (map oid_number (docs s)) 0)"

text \<open>
  \<^verbatim>\<open>insert_one(document)\<close>. The driver first adds a new \<^verbatim>\<open>_id\<close> to the dict it is given
  when the dict has none (pymongo: "If the document does not have an \_id field one will
  be added automatically"), so the caller's dict carries that \<^verbatim>\<open>_id\<close> afterwards, also
  when the insert raises. The second component is the caller's dict after the call.
\<close>

definition insert_one :: "bool \<Rightarrow> store \<Rightarrow> result_doc \<Rightarrow> (exn + store) \<times> result_doc" where
  "insert_one fails s r =
     (let r' = (if d_oid r = None then r\<lparr>d_oid := Some (fresh_oid s)\<rparr> else r)
      in (if fails then Inl PyMongoError
          else if find (\<lambda>d. d_oid d = d_oid r') (docs s) \<noteq> None
          then Inl DuplicateKeyError
          else if unique_job_id s
                  \<and> find (\<lambda>d. key_conflict (d_job_id r') (d_job_id d)) (docs s) \<noteq> None
          then Inl DuplicateKeyError
          else Inr (s\<lparr>docs := docs s @ [r']\<rparr>),
          r'))"

fun set_first :: "json \<Rightarrow> result_doc \<Rightarrow> result_doc list \<Rightarrow> result_doc list" where
  "set_first j r [] = []"
| "set_first j r (d # ds) =
     (if query_match j (d_job_id d) then r # ds else d # set_first j r ds)"

text \<open>
  \<^verbatim>\<open>update_one({"job_id": j}, {"$set": r})\<close>: the first matching document gets every field
  of \<^verbatim>\<open>r\<close>; with no match nothing changes (there is no upsert flag). The server refuses
  a \<^verbatim>\<open>$set\<close> that would change the \<^verbatim>\<open>_id\<close> of the matched document (\<^verbatim>\<open>WriteError\<close>, "would
  modify the immutable field \_id").
\<close>

definition update_one :: "bool \<Rightarrow> store \<Rightarrow> json \<Rightarrow> result_doc \<Rightarrow> exn + store" where
  "update_one fails s j r =
     (if fails then Inl PyMongoError
      else case find (\<lambda>d. query_match j (d_job_id d)) (docs s) of
             None \<Rightarrow> Inr s
           | Some d \<Rightarrow>
               if d_oid r \<noteq> None \<and> d_oid r \<noteq> d_oid d then Inl WriteError
               else Inr (s\<lparr>docs := set_first j (r\<lparr>d_oid := d_oid d\<rparr>) (docs s)\<rparr>))"

text \<open>How many documents a query for a job id matches.\<close>

definition count_job :: "store \<Rightarrow> json \<Rightarrow> nat" where
  "count_job s j = length (filter (\<lambda>d. query_match j (d_job_id d)) (docs s))"

section \<open>worker/services/database\_service.py\<close>

text \<open>
  \<^verbatim>\<open>get_result\<close> (lines 46-52): every exception of \<^verbatim>\<open>find_one\<close> is caught, logged and
  turned into \<^verbatim>\<open>None\<close>.
\<close>

definition get_result :: "bool \<Rightarrow> store \<Rightarrow> json \<Rightarrow> result_doc option" where
  "get_result find_fails s j =
     (case find_one find_fails s j of Inr found \<Rightarrow> found | Inl x \<Rightarrow> None)"

text \<open>
  \<^verbatim>\<open>save_result\<close> (lines 54-68): insert; on \<^verbatim>\<open>DuplicateKeyError\<close> update the existing
  record with the same dict, as \<^verbatim>\<open>insert_one\<close> left it (an exception of that update
  leaves the handler uncaught); any other exception of the insert is logged and raised
  again.
\<close>

definition save_result :: "bool \<Rightarrow> bool \<Rightarrow> store \<Rightarrow> result_doc \<Rightarrow> exn + store" where
  "save_result insert_fails update_fails s r =
     (case insert_one insert_fails s r of
        (Inr s', result) \<Rightarrow> Inr s'
      | (Inl x, result) \<Rightarrow>
          if x = DuplicateKeyError
          then update_one update_fails s (d_job_id result) result
          else Inl x)"

section \<open>worker/services/model\_service.py\<close>

definition positive_words :: "string list" where
  "positive_words = [''good'', ''great'', ''excellent'', ''love'', ''amazing'', ''awesome'', ''best'']"

definition negative_words :: "string list" where
  "negative_words = [''bad'', ''terrible'', ''awful'', ''hate'', ''worst'', ''poor'']"

text \<open>\<^verbatim>\<open>str.lower\<close>, on the ASCII letters.\<close>

definition lower_char :: "char \<Rightarrow> char" where
  "lower_char c =
     (let n = (of_char c :: nat) in if 65 \<le> n \<and> n \<le> 90 then char_of (n + 32) else c)"

text \<open>\<^verbatim>\<open>word in text\<close>: the word occurs as a contiguous part of the text.\<close>

fun contains :: "string \<Rightarrow> string \<Rightarrow> bool" where
  "contains word [] = (word = [])"
| "contains word (c # cs) = (prefix word (c # cs) \<or> contains word cs)"

text \<open>\<^verbatim>\<open>_mock_prediction\<close> (lines 138-152).\<close>

definition mock_prediction :: "string \<Rightarrow> real" where
  "mock_prediction t =
     (let text_lower = map lower_char t;
          pos_count = length (filter (\<lambda>word. contains word text_lower) positive_words);
          neg_count = length (filter (\<lambda>word. contains word text_lower) negative_words);
          total = pos_count + neg_count
      in if total > 0 then real pos_count / real total else 0.5)"

text \<open>
  \<^verbatim>\<open>text[:50]\<close> in the debug line of \<^verbatim>\<open>predict\<close> is evaluated whatever the log level; it
  raises unless the text can be sliced (a string or a list).
\<close>

fun sliceable :: "json \<Rightarrow> bool" where
  "sliceable (JString t) = True"
| "sliceable (JArray xs) = True"
| "sliceable other = False"

text \<open>
  The \<^verbatim>\<open>try\<close> block of \<^verbatim>\<open>predict\<close> (lines 118-131); \<^verbatim>\<open>None\<close> when a statement of it
  raises. \<^verbatim>\<open>model_loaded\<close> is \<^verbatim>\<open>self.model\<close> being set, \<^verbatim>\<open>model_out\<close> is what
  \<^verbatim>\<open>self.model.predict\<close> does on the preprocessed text: the score
  \<^verbatim>\<open>float(prediction[0][0])\<close>, or \<^verbatim>\<open>None\<close> when it raises (\<^verbatim>\<open>preprocess_text\<close> itself
  never raises: it catches everything and returns zeros). Scores are real numbers here.
\<close>

definition predict_try :: "bool \<Rightarrow> real option \<Rightarrow> json \<Rightarrow> (string \<times> real) option" where
  "predict_try model_loaded model_out text =
     (case (if model_loaded then model_out
            else (case text of JString t \<Rightarrow> Some (mock_prediction t) | _ \<Rightarrow> None)) of
        None \<Rightarrow> None
      | Some score \<Rightarrow>
          (let sentiment = (if score \<ge> 0.5 then ''positive'' else ''negative'')
           in if sliceable text then Some (sentiment, score) else None))"

text \<open>\<^verbatim>\<open>predict\<close> (lines 116-136): the \<^verbatim>\<open>except\<close> clause returns the neutral fallback.\<close>

definition predict :: "bool \<Rightarrow> real option \<Rightarrow> json \<Rightarrow> string \<times> real" where
  "predict model_loaded model_out text =
     (case predict_try model_loaded model_out text of
        Some r \<Rightarrow> r
      | None \<Rightarrow> (''neutral'', 0.5))"

section \<open>worker/main.py: the consumer\<close>

record metrics =
  total_processed :: nat
  total_failed :: nat
  total_duplicates :: nat
  start_time :: real

text \<open>
  The calls \<^verbatim>\<open>process_message\<close> makes on its collaborators, in the order it makes
  them.
\<close>

datatype call =
    GetResult json
  | Predict json
  | SaveResult result_doc
  | BasicAck nat
  | BasicNack nat bool

text \<open>
  A worker process: its id, whether its model service holds a model, its counters, the
  result collection it is connected to, and the calls it has made so far.
\<close>

record worker =
  worker_id :: string
  model_loaded :: bool
  metrics :: metrics
  db :: store
  calls :: "call list"

text \<open>
  One delivery of a message, with everything the outside world answers while it is
  processed: what \<^verbatim>\<open>json.loads(body)\<close> does, the clock readings, what the model does,
  which collection calls fail, and whether the channel refuses the acknowledgement.
\<close>

record delivery =
  delivery_tag :: nat
  loads :: "exn + json"
  now_iso :: string
  find_fails :: bool
  t_start :: real
  model_out :: "real option"
  t_end :: real
  processed_iso :: string
  insert_fails :: bool
  update_fails :: bool
  ack_fails :: bool

definition did :: "call \<Rightarrow> worker \<Rightarrow> worker" where
  "did c w = w\<lparr>calls := calls w @ [c]\<rparr>"

definition count_duplicate :: "worker \<Rightarrow> worker" where
  "count_duplicate w =
     w\<lparr>metrics := (metrics w)\<lparr>total_duplicates := total_duplicates (metrics w) + 1\<rparr>\<rparr>"

definition count_processed :: "worker \<Rightarrow> worker" where
  "count_processed w =
     w\<lparr>metrics := (metrics w)\<lparr>total_processed := total_processed (metrics w) + 1\<rparr>\<rparr>"

definition count_failed :: "worker \<Rightarrow> worker" where
  "count_failed w =
     w\<lparr>metrics := (metrics w)\<lparr>total_failed := total_failed (metrics w) + 1\<rparr>\<rparr>"

text \<open>Lines 116-118: the three fields read from the message, each with its default.\<close>

definition envelope_job_id :: "(string \<times> json) list \<Rightarrow> json" where
  "envelope_job_id kvs = dict_get kvs ''job_id'' (JString ''unknown'')"

definition envelope_text :: "(string \<times> json) list \<Rightarrow> json" where
  "envelope_text kvs = dict_get kvs ''text'' (JString [])"

definition envelope_timestamp :: "delivery \<Rightarrow> (string \<times> json) list \<Rightarrow> json" where
  "envelope_timestamp e kvs = dict_get kvs ''timestamp'' (JString (now_iso e))"

text \<open>
  Lines 131-146: the classifier is called between two clock readings and the result
  document is built from its answer.
\<close>

definition result_document :: "delivery \<Rightarrow> worker \<Rightarrow> (string \<times> json) list \<Rightarrow> result_doc" where
  "result_document e w kvs =
     (let (sentiment, score) = predict (model_loaded w) (model_out e) (envelope_text kvs);
          processing_time = t_end e - t_start e
      in \<lparr>d_oid = None,
          d_job_id = envelope_job_id kvs,
          d_text = envelope_text kvs,
          d_sentiment = sentiment,
          d_score = score,
          d_timestamp = envelope_timestamp e kvs,
          d_processed_at = processed_iso e,
          d_worker_id = worker_id w,
          d_processing_time = processing_time,
          d_status = ''completed''\<rparr>)"

text \<open>
  The \<^verbatim>\<open>try\<close> block of \<^verbatim>\<open>process_message\<close> (lines 114-155). \<^verbatim>\<open>Inl (x, w')\<close>: the
  exception \<^verbatim>\<open>x\<close> left the block, with the worker as it was at that moment.
  \<^verbatim>\<open>message.get\<close> exists only on a dict; on any other JSON value the attribute lookup
  raises. Both calls of \<^verbatim>\<open>basic_ack\<close> (lines 127 and 155) stand inside the block, after
  the counter has been incremented: when the channel refuses the acknowledgement
  (\<^verbatim>\<open>ack_fails\<close>), the exception leaves the block and nothing has reached the broker, so
  no \<^verbatim>\<open>BasicAck\<close> is recorded.
\<close>

definition try_block :: "delivery \<Rightarrow> worker \<Rightarrow> (exn \<times> worker) + worker" where
  "try_block e w =
     (case loads e of
        Inl x \<Rightarrow> Inl (x, w)
      | Inr message \<Rightarrow>
          (case message of
             JObject kvs \<Rightarrow>
               (let w1 = did (GetResult (envelope_job_id kvs)) w
                in case get_result (find_fails e) (db w1) (envelope_job_id kvs) of
                     Some existing_result \<Rightarrow>
                       (let w2 = count_duplicate w1
                        in if ack_fails e then Inl (AMQPChannelError, w2)
                           else Inr (did (BasicAck (delivery_tag e)) w2))
                   | None \<Rightarrow>
                       (let w2 = did (Predict (envelope_text kvs)) w1;
                            result = result_document e w2 kvs;
                            w3 = did (SaveResult result) w2
                        in case save_result (insert_fails e) (update_fails e) (db w3) result of
                             Inl x \<Rightarrow> Inl (x, w3)
                           | Inr s' \<Rightarrow>
                               (let w4 = count_processed (w3\<lparr>db := s'\<rparr>)
                                in if ack_fails e then Inl (AMQPChannelError, w4)
                                   else Inr (did (BasicAck (delivery_tag e)) w4))))
           | _ \<Rightarrow> Inl (AttributeError, w)))"

text \<open>
  \<^verbatim>\<open>process_message\<close> (lines 109-167): the block and its two handlers,
  \<^verbatim>\<open>except json.JSONDecodeError\<close> first, \<^verbatim>\<open>except Exception\<close> second. The
  \<^verbatim>\<open>basic_nack\<close> of a handler is taken to return.
\<close>

definition process_message :: "delivery \<Rightarrow> worker \<Rightarrow> worker" where
  "process_message e w =
     (case try_block e w of
        Inr w' \<Rightarrow> w'
      | Inl (x, w') \<Rightarrow>
          if x = JSONDecodeError
          then count_failed (did (BasicNack (delivery_tag e) False) w')
          else count_failed (did (BasicNack (delivery_tag e) True) w'))"

text \<open>The broker delivers one message at a time (prefetch 1): a run is a fold.\<close>

fun consume :: "delivery list \<Rightarrow> worker \<Rightarrow> worker" where
  "consume [] w = w"
| "consume (e # es) w = consume es (process_message e w)"

text \<open>\<^verbatim>\<open>get_metrics\<close> (lines 169-177), read at clock time \<^verbatim>\<open>now\<close>.\<close>

record metrics_report =
  r_total_processed :: nat
  r_total_failed :: nat
  r_total_duplicates :: nat
  r_start_time :: real
  r_worker_id :: string
  r_uptime :: real
  r_processing_rate :: real

definition get_metrics :: "real \<Rightarrow> worker \<Rightarrow> metrics_report" where
  "get_metrics now w =
     (let uptime = now - start_time (metrics w)
      in \<lparr>r_total_processed = total_processed (metrics w),
          r_total_failed = total_failed (metrics w),
          r_total_duplicates = total_duplicates (metrics w),
          r_start_time = start_time (metrics w),
          r_worker_id = worker_id w,
          r_uptime = uptime,
          r_processing_rate =
            (if uptime > 0 then real (total_processed (metrics w)) / uptime else 0)\<rparr>)"

section \<open>Connecting to the broker\<close>

text \<open>
  Both connection routines are a \<^verbatim>\<open>for attempt in range(max_retries)\<close> loop around a
  \<^verbatim>\<open>try\<close>. \<^verbatim>\<open>answer attempt\<close> is what the body of the \<^verbatim>\<open>try\<close> does at that attempt:
  \<^verbatim>\<open>None\<close> when it runs through, \<^verbatim>\<open>Some x\<close> when it raises \<^verbatim>\<open>x\<close>. The trace records each
  attempt and each \<^verbatim>\<open>time.sleep\<close>. The loop is the recursion over the list of attempt
  numbers; \<^verbatim>\<open>Inr None\<close> is the loop running out (the function then returns nothing).
\<close>

datatype broker_call = Connect nat | Sleep nat

text \<open>\<^verbatim>\<open>SentimentWorker.setup_rabbitmq\<close>, src/worker/main.py lines 49-107.\<close>

fun setup_attempts ::
  "nat \<Rightarrow> nat \<Rightarrow> (nat \<Rightarrow> exn option) \<Rightarrow> nat list \<Rightarrow> broker_call list \<Rightarrow>
     (exn + nat option) \<times> broker_call list" where
  "setup_attempts max_retries retry_delay answer [] tr = (Inr None, tr)"
| "setup_attempts max_retries retry_delay answer (attempt # rest) tr =
     (case answer attempt of
        None \<Rightarrow> (Inr (Some attempt), tr @ [Connect attempt])
      | Some x \<Rightarrow>
          if x = AMQPConnectionError then
            (if int attempt < int max_retries - 1
             then setup_attempts max_retries retry_delay answer rest
                    (tr @ [Connect attempt, Sleep retry_delay])
             else (Inl x, tr @ [Connect attempt]))
          else (Inl x, tr @ [Connect attempt]))"

definition setup_rabbitmq :: "(nat \<Rightarrow> exn option) \<Rightarrow> (exn + nat option) \<times> broker_call list" where
  "setup_rabbitmq answer = setup_attempts 5 5 answer [0..<5] []"

text \<open>
  \<^verbatim>\<open>QueueService._create_connection\<close>, src/api/services/queue\_service.py lines 20-47:
  the same loop, with the last attempt tested first.
\<close>

fun create_attempts ::
  "nat \<Rightarrow> nat \<Rightarrow> (nat \<Rightarrow> exn option) \<Rightarrow> nat list \<Rightarrow> broker_call list \<Rightarrow>
     (exn + nat option) \<times> broker_call list" where
  "create_attempts max_retries retry_delay answer [] tr = (Inr None, tr)"
| "create_attempts max_retries retry_delay answer (attempt # rest) tr =
     (case answer attempt of
        None \<Rightarrow> (Inr (Some attempt), tr @ [Connect attempt])
      | Some x \<Rightarrow>
          if x = AMQPConnectionError then
            (if int attempt = int max_retries - 1
             then (Inl x, tr @ [Connect attempt])
             else create_attempts max_retries retry_delay answer rest
                    (tr @ [Connect attempt, Sleep retry_delay]))
          else (Inl x, tr @ [Connect attempt]))"

definition create_connection :: "(nat \<Rightarrow> exn option) \<Rightarrow> (exn + nat option) \<times> broker_call list" where
  "create_connection answer = create_attempts 3 2 answer [0..<3] []"

text \<open>\<^verbatim>\<open>AMQPConnectionError\<close> and the channel errors are subclasses of \<^verbatim>\<open>AMQPError\<close>.\<close>

definition is_AMQPError :: "exn \<Rightarrow> bool" where
  "is_AMQPError x = (x = AMQPConnectionError \<or> x = AMQPChannelError)"

text \<open>
  \<^verbatim>\<open>QueueService.publish_message\<close> (lines 49-106): connect, then declare and publish on
  the channel (\<^verbatim>\<open>channel_answer\<close>: what those calls do). An \<^verbatim>\<open>AMQPError\<close> of either step
  is raised again as a plain \<^verbatim>\<open>Exception("Failed to publish message to queue: ...")\<close>,
  written \<^verbatim>\<open>PublishFailed\<close>; any other exception passes through (such as the attribute
  error of \<^verbatim>\<open>connection.channel()\<close> on the \<^verbatim>\<open>None\<close> of a loop that ran out).
\<close>

definition publish_message ::
  "(nat \<Rightarrow> exn option) \<Rightarrow> exn option \<Rightarrow> (exn + unit) \<times> broker_call list" where
  "publish_message answer channel_answer =
     (case create_connection answer of
        (Inl x, tr) \<Rightarrow> (Inl (if is_AMQPError x then PublishFailed else x), tr)
      | (Inr connection, tr) \<Rightarrow>
          (case connection of
             None \<Rightarrow> (Inl AttributeError, tr)
           | Some attempt \<Rightarrow>
               (case channel_answer of
                  None \<Rightarrow> (Inr (), tr)
                | Some x \<Rightarrow> (Inl (if is_AMQPError x then PublishFailed else x), tr))))"

text \<open>
  \<^verbatim>\<open>SentimentWorker.__init__\<close> (lines 18-34): the services are built (\<^verbatim>\<open>db_answer\<close>: what
  constructing the database service does), the broker is set up, and only then the
  counters are created. No handler surrounds these calls, so an exception of any of them
  leaves the constructor and no worker exists.
\<close>

definition worker_init ::
  "string \<Rightarrow> bool \<Rightarrow> exn option \<Rightarrow> store \<Rightarrow> (nat \<Rightarrow> exn option) \<Rightarrow> real \<Rightarrow>
     (exn + worker) \<times> broker_call list" where
  "worker_init wid model db_answer s answer now =
     (case db_answer of
        Some x \<Rightarrow> (Inl x, [])
      | None \<Rightarrow>
          (case setup_rabbitmq answer of
             (Inl x, tr) \<Rightarrow> (Inl x, tr)
           | (Inr channel, tr) \<Rightarrow>
               (Inr \<lparr>worker_id = wid, model_loaded = model,
                     metrics = \<lparr>total_processed = 0, total_failed = 0,
                                total_duplicates = 0, start_time = now\<rparr>,
                     db = s, calls = []\<rparr>, tr)))"

text \<open>
  The trace of a run whose last attempt is number \<^verbatim>\<open>k\<close>: attempts \<^verbatim>\<open>a\<close> to \<^verbatim>\<open>k - 1\<close>,
  each followed by one sleep of \<^verbatim>\<open>d\<close> seconds, then attempt \<^verbatim>\<open>k\<close>.
\<close>

definition attempts_upto :: "nat \<Rightarrow> nat \<Rightarrow> nat \<Rightarrow> broker_call list" where
  "attempts_upto d a k = concat (map (\<lambda>i. [Connect i, Sleep d]) [a..<k]) @ [Connect k]"

section \<open>Reading a run\<close>

text \<open>The rejections among the calls of a worker: the tag and the requeue flag of each.\<close>

fun nack_of :: "call \<Rightarrow> (nat \<times> bool) list" where
  "nack_of (BasicNack tag requeue) = [(tag, requeue)]"
| "nack_of other = []"

definition rejections :: "call list \<Rightarrow> (nat \<times> bool) list" where
  "rejections cs = concat (map nack_of cs)"

text \<open>
  A worker with fresh counters on a given collection, and deliveries during which
  nothing fails, for use as concrete inputs.
\<close>

definition example_worker :: "store \<Rightarrow> worker" where
  "example_worker s =
     \<lparr>worker_id = ''w1'', model_loaded = True,
      metrics = \<lparr>total_processed = 0, total_failed = 0, total_duplicates = 0,
                 start_time = 100\<rparr>,
      db = s, calls = []\<rparr>"

definition example_delivery :: "nat \<Rightarrow> exn + json \<Rightarrow> delivery" where
  "example_delivery tag body =
     \<lparr>delivery_tag = tag, loads = body, now_iso = ''2024-01-21T10:30:00'',
      find_fails = False, t_start = 1, model_out = Some (9/10), t_end = 3,
      processed_iso = ''2024-01-21T10:30:02'', insert_fails = False,
      update_fails = False, ack_fails = False\<rparr>"

definition job_j1 :: "(string \<times> json) list" where
  "job_j1 = [(''job_id'', JString ''j1''), (''text'', JString ''I love this'')]"

definition delivery_j1 :: "nat \<Rightarrow> delivery" where
  "delivery_j1 tag = example_delivery tag (Inr (JObject job_j1))"

definition empty_store :: store where
  "empty_store = \<lparr>docs = [], unique_job_id = True\<rparr>"

definition delivery_out_of_range :: delivery where
  "delivery_out_of_range = (delivery_j1 1)\<lparr>model_out := Some (3/2)\<rparr>"

definition delivery_model_raises :: delivery where
  "delivery_model_raises = (delivery_j1 1)\<lparr>model_out := None\<rparr>"

definition delivery_not_utf8 :: delivery where
  "delivery_not_utf8 = example_delivery 1 (Inl UnicodeDecodeError)"

definition delivery_insert_fails :: "nat \<Rightarrow> delivery" where
  "delivery_insert_fails tag = (delivery_j1 tag)\<lparr>insert_fails := True\<rparr>"


definition dead_lettered :: "call list \<Rightarrow> nat list" where
  "dead_lettered cs = map fst (filter (\<lambda>p. \<not> snd p) (rejections cs))"

definition stored_j1 :: result_doc where
  "stored_j1 =
     \<lparr>d_oid = Some 7, d_job_id = JString ''j1'', d_text = JString ''I love this'',
      d_sentiment = ''positive'',
      d_score = 9/10, d_timestamp = JString ''2024-01-21T10:30:00'',
      d_processed_at = ''2024-01-21T10:30:02'', d_worker_id = ''w0'',
      d_processing_time = 2, d_status = ''completed''\<rparr>"

definition store_with_j1 :: store where
  "store_with_j1 = \<lparr>docs = [stored_j1], unique_job_id = True\<rparr>"

definition delivery_read_fails :: "nat \<Rightarrow> delivery" where
  "delivery_read_fails tag = (delivery_j1 tag)\<lparr>find_fails := True\<rparr>"

definition delivery_without_id :: "nat \<Rightarrow> (string \<times> json) list \<Rightarrow> delivery" where
  "delivery_without_id tag kvs = example_delivery tag (Inr (JObject kvs))"

definition job_without_id :: "(string \<times> json) list" where
  "job_without_id = [(''status'', JString ''submitted'')]"

text \<open>The dicts two workers have built for the same job j1.\<close>

definition racing_result_a :: result_doc where
  "racing_result_a =
     \<lparr>d_oid = None, d_job_id = JString ''j1'', d_text = JString ''I love this'',
      d_sentiment = ''positive'', d_score = 9/10,
      d_timestamp = JString ''2024-01-21T10:30:00'',
      d_processed_at = ''2024-01-21T10:30:02'', d_worker_id = ''worker-a'',
      d_processing_time = 2, d_status = ''completed''\<rparr>"

definition racing_result_b :: result_doc where
  "racing_result_b =
     \<lparr>d_oid = None, d_job_id = JString ''j1'', d_text = JString ''I love this'',
      d_sentiment = ''positive'', d_score = 9/10,
      d_timestamp = JString ''2024-01-21T10:30:00'',
      d_processed_at = ''2024-01-21T10:30:03'', d_worker_id = ''worker-b'',
      d_processing_time = 3, d_status = ''completed''\<rparr>"

text \<open>The attempt numbers and the sleeps of a trace, in order.\<close>

fun connects :: "broker_call list \<Rightarrow> nat list" where
  "connects [] = []"
| "connects (Connect i # tr) = i # connects tr"
| "connects (Sleep d # tr) = connects tr"

fun sleeps :: "broker_call list \<Rightarrow> nat list" where
  "sleeps [] = []"
| "sleeps (Connect i # tr) = sleeps tr"
| "sleeps (Sleep d # tr) = d # sleeps tr"

text \<open>A broker that refuses every connection.\<close>

definition broker_down :: "nat \<Rightarrow> exn option" where
  "broker_down attempt = Some AMQPConnectionError"






section \<open>Properties\<close>

subsection \<open>Shared facts about the collection and the worker\<close>

lemma find_none_count:
  "(find (\<lambda>d. query_match j (d_job_id d)) (docs s) = None) = (count_job s j = 0)"
  by (auto simp: count_job_def find_None_iff filter_empty_conv)

lemma string_key_conflict: "key_conflict (JString jid) v = query_match (JString jid) v"
  by (simp add: key_conflict_def)

lemma string_matches_itself: "query_match (JString jid) (JString jid)"
  by (simp add: query_match_def)

lemma fold_max_ge: "a \<le> fold max xs (a::nat)"
proof (induction xs arbitrary: a)
  case Nil
  then show ?case by simp
next
  case (Cons x xs)
  have "a \<le> max x a" by simp
  also have "\<dots> \<le> fold max xs (max x a)" by (rule Cons.IH)
  finally show ?case by simp
qed

lemma fold_max_member: "x \<in> set xs \<Longrightarrow> x \<le> fold max xs (a::nat)"
proof (induction xs arbitrary: a)
  case Nil
  then show ?case by simp
next
  case (Cons y ys)
  show ?case
  proof (cases "x = y")
    case True
    have "x \<le> max y a" using True by simp
    also have "\<dots> \<le> fold max ys (max y a)" by (rule fold_max_ge)
    finally show ?thesis by simp
  next
    case False
    with Cons.prems have "x \<in> set ys" by simp
    then show ?thesis by (simp add: Cons.IH)
  qed
qed

lemma fresh_oid_unused: "find (\<lambda>d. d_oid d = Some (fresh_oid s)) (docs s) = None"
proof -
  have "d_oid d \<noteq> Some (fresh_oid s)" if "d \<in> set (docs s)" for d
  proof
    assume a: "d_oid d = Some (fresh_oid s)"
    then have "oid_number d = fresh_oid s" by (simp add: oid_number_def)
    moreover have "oid_number d \<le> fold max (map oid_number (docs s)) 0"
      using that by (intro fold_max_member) simp
    ultimately show False by (simp add: fresh_oid_def)
  qed
  then show ?thesis by (auto simp: find_None_iff)
qed

lemma stored_oid_differs:
  "find P (docs s) = Some d \<Longrightarrow> d_oid d \<noteq> Some (fresh_oid s)"
proof
  assume f: "find P (docs s) = Some d" and a: "d_oid d = Some (fresh_oid s)"
  from f have "d \<in> set (docs s)" by (auto simp: find_Some_iff in_set_conv_nth)
  with a have "find (\<lambda>d. d_oid d = Some (fresh_oid s)) (docs s) \<noteq> None"
    by (auto simp: find_None_iff)
  then show False by (simp add: fresh_oid_unused)
qed

lemma get_result_unseen: "count_job s j = 0 \<Longrightarrow> get_result ff s j = None"
  by (simp add: get_result_def find_one_def find_none_count)

lemma get_result_read_failure: "get_result True s j = None"
  by (simp add: get_result_def find_one_def)

lemma get_result_seen:
  assumes "0 < count_job s j"
  shows "\<exists>d. get_result False s j = Some d"
proof -
  from assms have "find (\<lambda>d. query_match j (d_job_id d)) (docs s) \<noteq> None"
    by (simp add: find_none_count)
  then show ?thesis by (auto simp: get_result_def find_one_def)
qed

text \<open>An insert that does not raise appends the dict, with its new \<^verbatim>\<open>_id\<close>.\<close>

lemma insert_one_returns:
  assumes "d_oid r = None" and "\<not> isl (fst (insert_one i s r))"
  shows "insert_one i s r =
           (Inr (s\<lparr>docs := docs s @ [r\<lparr>d_oid := Some (fresh_oid s)\<rparr>]\<rparr>),
            r\<lparr>d_oid := Some (fresh_oid s)\<rparr>)"
  using assms by (auto simp: insert_one_def Let_def split: if_splits)

lemma save_result_inserted:
  assumes "d_oid r = None" and "\<not> isl (fst (insert_one i s r))"
  shows "save_result i u s r = Inr (s\<lparr>docs := docs s @ [r\<lparr>d_oid := Some (fresh_oid s)\<rparr>]\<rparr>)"
  by (simp add: save_result_def insert_one_returns [OF assms])

text \<open>A string id that no stored document matches: the insert goes through.\<close>

lemma insert_one_unseen:
  assumes "d_job_id r = JString jid" and "count_job s (JString jid) = 0" and "\<not> i"
    and "d_oid r = None"
  shows "\<not> isl (fst (insert_one i s r))"
  using assms
  by (simp add: insert_one_def Let_def fresh_oid_unused string_key_conflict find_none_count)


text \<open>
  A string id that a stored document matches, with the unique index in place: the insert
  collides, and the update that follows is refused or fails.
\<close>

lemma save_result_conflict:
  assumes "unique_job_id s" and "d_job_id r = JString jid" and "0 < count_job s (JString jid)"
    and "d_oid r = None"
  shows "save_result False u s r = Inl (if u then PyMongoError else WriteError)"
proof -
  from assms(3) obtain d
    where d: "find (\<lambda>d. query_match (JString jid) (d_job_id d)) (docs s) = Some d"
    using find_none_count [of "JString jid" s] by auto
  then have "d_oid d \<noteq> Some (fresh_oid s)" by (rule stored_oid_differs)
  then show ?thesis using assms d
    by (auto simp: save_result_def insert_one_def update_one_def Let_def fresh_oid_unused
          string_key_conflict)
qed

lemma save_result_insert_fails: "isl (save_result True u s r)"
  by (simp add: save_result_def insert_one_def Let_def)

lemma update_one_exception: "update_one u s j r = Inl x \<Longrightarrow> x = PyMongoError \<or> x = WriteError"
  by (auto simp: update_one_def split: if_splits option.splits)

lemma save_result_exception:
  "save_result i u s r = Inl x \<Longrightarrow> x = PyMongoError \<or> x = WriteError"
  by (auto simp: save_result_def insert_one_def Let_def split: if_splits
           dest: update_one_exception)

lemma save_result_not_duplicate_key: "save_result i u s r \<noteq> Inl DuplicateKeyError"
  using save_result_exception [of i u s r DuplicateKeyError] by auto

lemma count_job_append:
  "count_job (s\<lparr>docs := docs s @ [r]\<rparr>) j =
     count_job s j + (if query_match j (d_job_id r) then 1 else 0)"
  by (simp add: count_job_def)

lemma result_document_simps [simp]:
  "d_job_id (result_document e w kvs) = envelope_job_id kvs"
  "d_text (result_document e w kvs) = envelope_text kvs"
  "d_oid (result_document e w kvs) = None"
  by (simp_all add: result_document_def Let_def split: prod.splits)

lemma db_did [simp]: "db (did c w) = db w"
  by (simp add: did_def)

lemma metrics_did [simp]: "metrics (did c w) = metrics w"
  by (simp add: did_def)

lemma calls_did [simp]: "calls (did c w) = calls w @ [c]"
  by (simp add: did_def)

lemma model_loaded_did [simp]: "model_loaded (did c w) = model_loaded w"
  by (simp add: did_def)

lemma worker_id_did [simp]: "worker_id (did c w) = worker_id w"
  by (simp add: did_def)

lemma process_duplicate:
  assumes "loads e = Inr (JObject kvs)"
    and "get_result (find_fails e) (db w) (envelope_job_id kvs) = Some d"
    and "\<not> ack_fails e"
  shows "process_message e w =
           did (BasicAck (delivery_tag e)) (count_duplicate (did (GetResult (envelope_job_id kvs)) w))"
  using assms by (simp add: process_message_def try_block_def Let_def)

lemma process_saved:
  assumes "loads e = Inr (JObject kvs)"
    and "get_result (find_fails e) (db w) (envelope_job_id kvs) = None"
    and "w2 = did (Predict (envelope_text kvs)) (did (GetResult (envelope_job_id kvs)) w)"
    and "save_result (insert_fails e) (update_fails e) (db w) (result_document e w2 kvs) = Inr s'"
    and "\<not> ack_fails e"
  shows "process_message e w =
           did (BasicAck (delivery_tag e))
             (count_processed ((did (SaveResult (result_document e w2 kvs)) w2)\<lparr>db := s'\<rparr>))"
  using assms by (simp add: process_message_def try_block_def Let_def)

text \<open>
  The duplicate check finds nothing, the insert and the acknowledgement go through: what
  the worker becomes.
\<close>

lemma process_new_job:
  assumes "loads e = Inr (JObject kvs)"
    and "get_result (find_fails e) (db w) (envelope_job_id kvs) = None"
    and "w2 = did (Predict (envelope_text kvs)) (did (GetResult (envelope_job_id kvs)) w)"
    and "r = result_document e w2 kvs"
    and "\<not> isl (fst (insert_one (insert_fails e) (db w) r))"
    and "\<not> ack_fails e"
  shows "db (process_message e w) =
           (db w)\<lparr>docs := docs (db w) @ [r\<lparr>d_oid := Some (fresh_oid (db w))\<rparr>]\<rparr>"
    and "calls (process_message e w) =
           calls w @ [GetResult (envelope_job_id kvs), Predict (envelope_text kvs),
                      SaveResult r, BasicAck (delivery_tag e)]"
    and "metrics (process_message e w) =
           (metrics w)\<lparr>total_processed := total_processed (metrics w) + 1\<rparr>"
proof -
  have o: "d_oid r = None" by (simp add: assms(4))
  have s: "save_result (insert_fails e) (update_fails e) (db w) (result_document e w2 kvs)
             = Inr ((db w)\<lparr>docs := docs (db w) @ [r\<lparr>d_oid := Some (fresh_oid (db w))\<rparr>]\<rparr>)"
    using save_result_inserted [OF o assms(5)] by (simp add: assms(4))
  note p = process_saved [OF assms(1,2,3) s assms(6)]
  show "db (process_message e w) =
          (db w)\<lparr>docs := docs (db w) @ [r\<lparr>d_oid := Some (fresh_oid (db w))\<rparr>]\<rparr>"
    by (simp add: p count_processed_def)
  show "calls (process_message e w) =
           calls w @ [GetResult (envelope_job_id kvs), Predict (envelope_text kvs),
                      SaveResult r, BasicAck (delivery_tag e)]"
    by (simp add: p count_processed_def assms(3,4))
  show "metrics (process_message e w) =
           (metrics w)\<lparr>total_processed := total_processed (metrics w) + 1\<rparr>"
    by (simp add: p count_processed_def assms(3))
qed

text \<open>The same for a string id that no stored document matches.\<close>

lemma process_new_string_job:
  assumes "loads e = Inr (JObject kvs)"
    and "envelope_job_id kvs = JString jid"
    and "count_job (db w) (JString jid) = 0"
    and "\<not> insert_fails e"
    and "\<not> ack_fails e"
    and "w2 = did (Predict (envelope_text kvs)) (did (GetResult (envelope_job_id kvs)) w)"
    and "r = result_document e w2 kvs"
  shows "db (process_message e w) =
           (db w)\<lparr>docs := docs (db w) @ [r\<lparr>d_oid := Some (fresh_oid (db w))\<rparr>]\<rparr>"
    and "calls (process_message e w) =
           calls w @ [GetResult (envelope_job_id kvs), Predict (envelope_text kvs),
                      SaveResult r, BasicAck (delivery_tag e)]"
    and "metrics (process_message e w) =
           (metrics w)\<lparr>total_processed := total_processed (metrics w) + 1\<rparr>"
proof -
  have g: "get_result (find_fails e) (db w) (envelope_job_id kvs) = None"
    using assms(2,3) by (simp add: get_result_unseen)
  have i: "\<not> isl (fst (insert_one (insert_fails e) (db w) r))"
    using assms(2,3,4,7) by (intro insert_one_unseen [of _ jid]) simp_all
  note new = process_new_job [OF assms(1) g assms(6,7) i assms(5)]
  show "db (process_message e w) =
           (db w)\<lparr>docs := docs (db w) @ [r\<lparr>d_oid := Some (fresh_oid (db w))\<rparr>]\<rparr>"
    by (rule new(1))
  show "calls (process_message e w) =
           calls w @ [GetResult (envelope_job_id kvs), Predict (envelope_text kvs),
                      SaveResult r, BasicAck (delivery_tag e)]"
    by (rule new(2))
  show "metrics (process_message e w) =
           (metrics w)\<lparr>total_processed := total_processed (metrics w) + 1\<rparr>"
    by (rule new(3))
qed

text \<open>
  Two deliveries that carry the same string as job id, the first one stored, the second
  one read without failure, both acknowledged.
\<close>

lemma same_id_twice:
  assumes "loads e1 = Inr (JObject kvs1)" and "loads e2 = Inr (JObject kvs2)"
    and "envelope_job_id kvs1 = JString jid" and "envelope_job_id kvs2 = JString jid"
    and "count_job (db w) (JString jid) = 0"
    and "\<not> insert_fails e1" and "\<not> ack_fails e1"
    and "\<not> find_fails e2" and "\<not> ack_fails e2"
  shows "count_job (db (consume [e1, e2] w)) (JString jid) = 1
       \<and> db (consume [e1, e2] w) = db (process_message e1 w)
       \<and> total_processed (metrics (consume [e1, e2] w)) = total_processed (metrics w) + 1
       \<and> total_duplicates (metrics (consume [e1, e2] w)) = total_duplicates (metrics w) + 1
       \<and> total_failed (metrics (consume [e1, e2] w)) = total_failed (metrics w)
       \<and> calls (consume [e1, e2] w) =
           calls (process_message e1 w) @ [GetResult (JString jid), BasicAck (delivery_tag e2)]"
proof -
  define w1 where "w1 = process_message e1 w"
  define r where "r = result_document e1 (did (Predict (envelope_text kvs1))
                         (did (GetResult (envelope_job_id kvs1)) w)) kvs1"
  note first = process_new_string_job [OF assms(1,3,5,6,7) refl r_def, folded w1_def]
  have c1: "count_job (db w1) (JString jid) = 1"
    using assms(3,5) by (simp add: first(1) count_job_append r_def string_matches_itself)
  then obtain d where d: "get_result (find_fails e2) (db w1) (envelope_job_id kvs2) = Some d"
    using get_result_seen [of "db w1" "JString jid"] assms(4,8) by auto
  have w2: "process_message e2 w1 =
              did (BasicAck (delivery_tag e2)) (count_duplicate (did (GetResult (JString jid)) w1))"
    using process_duplicate [OF assms(2) d assms(9)] by (simp add: assms(4))
  have "consume [e1, e2] w = process_message e2 w1" by (simp add: w1_def)
  then show ?thesis
    using c1 first(3) by (simp add: w2 count_duplicate_def w1_def [symmetric])
qed

subsection \<open>Concrete inputs\<close>

lemma rejections_append [simp]: "rejections (cs @ cs') = rejections cs @ rejections cs'"
  by (simp add: rejections_def)

lemma rejections_simps [simp]:
  "rejections [] = []"
  "rejections (BasicNack t rq # cs) = (t, rq) # rejections cs"
  "rejections (BasicAck t # cs) = rejections cs"
  "rejections (GetResult j # cs) = rejections cs"
  "rejections (Predict x # cs) = rejections cs"
  "rejections (SaveResult r # cs) = rejections cs"
  by (simp_all add: rejections_def)

lemma dead_lettered_append [simp]:
  "dead_lettered (cs @ cs') = dead_lettered cs @ dead_lettered cs'"
  by (simp add: dead_lettered_def)

lemma dead_lettered_simps [simp]:
  "dead_lettered [] = []"
  "dead_lettered (BasicNack t rq # cs) = (if rq then dead_lettered cs else t # dead_lettered cs)"
  "dead_lettered (BasicAck t # cs) = dead_lettered cs"
  "dead_lettered (GetResult j # cs) = dead_lettered cs"
  "dead_lettered (Predict x # cs) = dead_lettered cs"
  "dead_lettered (SaveResult r # cs) = dead_lettered cs"
  by (simp_all add: dead_lettered_def)

lemma metrics_count_failed [simp]:
  "metrics (count_failed w) = (metrics w)\<lparr>total_failed := total_failed (metrics w) + 1\<rparr>"
  "db (count_failed w) = db w" "calls (count_failed w) = calls w"
  by (simp_all add: count_failed_def)

lemma job_j1_id: "envelope_job_id job_j1 = JString ''j1''"
  by (simp add: envelope_job_id_def dict_get_def job_j1_def)

lemma job_j1_text: "envelope_text job_j1 = JString ''I love this''"
  by (simp add: envelope_text_def dict_get_def job_j1_def)

lemma example_worker_simps [simp]:
  "db (example_worker s) = s"
  "calls (example_worker s) = []"
  "model_loaded (example_worker s) = True"
  "total_processed (metrics (example_worker s)) = 0"
  "total_failed (metrics (example_worker s)) = 0"
  "total_duplicates (metrics (example_worker s)) = 0"
  "start_time (metrics (example_worker s)) = 100"
  by (simp_all add: example_worker_def)

lemma count_job_empty [simp]: "count_job empty_store j = 0"
  by (simp add: count_job_def empty_store_def)

lemma docs_empty_store [simp]: "docs empty_store = []"
  by (simp add: empty_store_def)

lemma count_job_store_with_j1: "count_job store_with_j1 (JString ''j1'') = 1"
  by (simp add: count_job_def store_with_j1_def stored_j1_def query_match_def)

lemma delivery_j1_simps:
  "loads (delivery_j1 tag) = Inr (JObject job_j1)"
  "\<not> insert_fails (delivery_j1 tag)"
  "\<not> find_fails (delivery_j1 tag)"
  "delivery_tag (delivery_j1 tag) = tag"
  "\<not> ack_fails (delivery_j1 tag)"
  by (simp_all add: delivery_j1_def example_delivery_def)

lemma delivery_out_of_range_simps:
  "loads delivery_out_of_range = Inr (JObject job_j1)"
  "\<not> insert_fails delivery_out_of_range"
  "model_out delivery_out_of_range = Some (3/2)"
  "delivery_tag delivery_out_of_range = 1"
  "\<not> ack_fails delivery_out_of_range"
  by (simp_all add: delivery_out_of_range_def delivery_j1_def example_delivery_def)

lemma delivery_model_raises_simps:
  "loads delivery_model_raises = Inr (JObject job_j1)"
  "\<not> insert_fails delivery_model_raises"
  "model_out delivery_model_raises = None"
  "delivery_tag delivery_model_raises = 1"
  "\<not> ack_fails delivery_model_raises"
  by (simp_all add: delivery_model_raises_def delivery_j1_def example_delivery_def)

lemma delivery_insert_fails_simps:
  "loads (delivery_insert_fails tag) = Inr (JObject job_j1)"
  "insert_fails (delivery_insert_fails tag)"
  "delivery_tag (delivery_insert_fails tag) = tag"
  "find_fails (delivery_insert_fails tag) = False"
  by (simp_all add: delivery_insert_fails_def delivery_j1_def example_delivery_def)


lemma delivery_read_fails_simps:
  "loads (delivery_read_fails tag) = Inr (JObject job_j1)"
  "find_fails (delivery_read_fails tag)"
  "\<not> insert_fails (delivery_read_fails tag)"
  "\<not> update_fails (delivery_read_fails tag)"
  "delivery_tag (delivery_read_fails tag) = tag"
  "\<not> ack_fails (delivery_read_fails tag)"
  by (simp_all add: delivery_read_fails_def delivery_j1_def example_delivery_def)

lemma delivery_without_id_simps:
  "loads (delivery_without_id tag kvs) = Inr (JObject kvs)"
  "\<not> insert_fails (delivery_without_id tag kvs)"
  "\<not> find_fails (delivery_without_id tag kvs)"
  "delivery_tag (delivery_without_id tag kvs) = tag"
  "\<not> ack_fails (delivery_without_id tag kvs)"
  by (simp_all add: delivery_without_id_def example_delivery_def)




subsection \<open>Redelivery\<close>

text \<open>
  C1. A job message whose id is a string that matches no document of the collection is
  delivered twice; the insert of the first delivery goes through, the read of the second
  delivery succeeds, and the channel takes both acknowledgements. Then the collection
  holds exactly one record for that id, the second delivery leaves the collection as the
  first one left it, the duplicate counter has grown by exactly one, and the only calls of
  the second delivery are the lookup and the acknowledgement: the classifier is not called
  and nothing is saved.
\<close>

theorem redelivery_is_skipped:
  assumes "loads e1 = Inr (JObject kvs)" and "loads e2 = Inr (JObject kvs)"
    and "envelope_job_id kvs = JString jid"
    and "count_job (db w) (JString jid) = 0"
    and "\<not> insert_fails e1" and "\<not> ack_fails e1"
    and "\<not> find_fails e2" and "\<not> ack_fails e2"
  shows "count_job (db (consume [e1, e2] w)) (JString jid) = 1
       \<and> db (consume [e1, e2] w) = db (process_message e1 w)
       \<and> total_processed (metrics (consume [e1, e2] w)) = total_processed (metrics w) + 1
       \<and> total_duplicates (metrics (consume [e1, e2] w)) = total_duplicates (metrics w) + 1
       \<and> total_failed (metrics (consume [e1, e2] w)) = total_failed (metrics w)
       \<and> calls (consume [e1, e2] w) =
           calls (process_message e1 w) @ [GetResult (JString jid), BasicAck (delivery_tag e2)]"
  using assms(1,2,3,3,4,5,6,7,8) by (rule same_id_twice)

theorem redelivery_is_skipped_witness:
  "count_job (db (consume [delivery_j1 1, delivery_j1 2] (example_worker empty_store)))
     (JString ''j1'') = 1
   \<and> total_duplicates
       (metrics (consume [delivery_j1 1, delivery_j1 2] (example_worker empty_store))) = 1"
proof -
  have h3: "count_job (db (example_worker empty_store)) (JString ''j1'') = 0"
    by simp
  note r = redelivery_is_skipped
             [OF delivery_j1_simps(1) delivery_j1_simps(1) job_j1_id h3 delivery_j1_simps(2)
                 delivery_j1_simps(5) delivery_j1_simps(3) delivery_j1_simps(5)]
  have z: "total_duplicates (metrics (example_worker empty_store)) = 0"
    by simp
  from r have "count_job (db (consume [delivery_j1 1, delivery_j1 2]
                 (example_worker empty_store))) (JString ''j1'') = 1"
    by blast
  moreover from r z have "total_duplicates (metrics (consume [delivery_j1 1, delivery_j1 2]
                 (example_worker empty_store))) = 1"
    by presburger
  ultimately show ?thesis by blast
qed

subsection \<open>The classifier's answer\<close>

lemma predict_label: "fst (predict m out t) \<in> {''positive'', ''negative'', ''neutral''}"
  by (auto simp: predict_def predict_try_def Let_def split: option.splits if_splits json.splits)

lemma predict_model_score:
  "sliceable t \<Longrightarrow> predict True (Some sc) t = (if sc \<ge> 0.5 then ''positive'' else ''negative'', sc)"
  by (simp add: predict_def predict_try_def)

lemma predict_fallback: "predict_try m out t = None \<Longrightarrow> predict m out t = (''neutral'', 0.5)"
  by (simp add: predict_def)

lemma ratio_bounds: "0 \<le> real p / real (p + n) \<and> real p / real (p + n) \<le> 1"
proof (cases "p + n = 0")
  case True
  then show ?thesis by simp
next
  case False
  then have "0 < p + n" by simp
  then have pos: "0 < real (p + n)" by (simp only: of_nat_0_less_iff)
  have le: "real p \<le> real (p + n)" by (simp only: of_nat_le_iff le_add1)
  have "0 \<le> real p / real (p + n)" by (simp only: zero_le_divide_iff) simp
  moreover have "real p / real (p + n) \<le> 1"
    using pos le by (simp only: divide_le_eq_1_pos)
  ultimately show ?thesis by blast
qed

lemma mock_prediction_bounds: "0 \<le> mock_prediction t \<and> mock_prediction t \<le> 1"
proof -
  define p where "p = length (filter (\<lambda>word. contains word (map lower_char t)) positive_words)"
  define n where "n = length (filter (\<lambda>word. contains word (map lower_char t)) negative_words)"
  have "mock_prediction t = (if p + n > 0 then real p / real (p + n) else 0.5)"
    by (simp only: mock_prediction_def Let_def p_def n_def)
  then show ?thesis using ratio_bounds [of p n] by (cases "p + n > 0") (simp_all del: of_nat_add)
qed

lemma result_document_fields:
  "predict (model_loaded w) (model_out e) (envelope_text kvs) = (label, sc) \<Longrightarrow>
     d_sentiment (result_document e w kvs) = label \<and> d_score (result_document e w kvs) = sc"
  by (simp add: result_document_def)

text \<open>Job j1 on an empty collection: the lookup finds nothing and the insert goes through.\<close>

lemma j1_on_empty_store:
  assumes "loads e = Inr (JObject job_j1)" and "\<not> insert_fails e"
  shows "get_result (find_fails e) (db (example_worker empty_store)) (envelope_job_id job_j1) = None"
    and "\<not> isl (fst (insert_one (insert_fails e) (db (example_worker empty_store))
                   (result_document e
                      (did (Predict (envelope_text job_j1))
                         (did (GetResult (envelope_job_id job_j1)) (example_worker empty_store)))
                      job_j1)))"
proof -
  show "get_result (find_fails e) (db (example_worker empty_store)) (envelope_job_id job_j1) = None"
    by (simp add: get_result_unseen)
  show "\<not> isl (fst (insert_one (insert_fails e) (db (example_worker empty_store))
                   (result_document e
                      (did (Predict (envelope_text job_j1))
                         (did (GetResult (envelope_job_id job_j1)) (example_worker empty_store)))
                      job_j1)))"
    using assms(2) by (intro insert_one_unseen [of _ "''j1''"]) (simp_all add: job_j1_id)
qed

text \<open>
  C2 (as the code has it). The worker never checks the classifier's answer. For every
  parsed job for which the duplicate check finds no record and whose insert and
  acknowledgement go through, the record that is stored carries exactly the label and the
  score that \<^verbatim>\<open>predict\<close> returned, whatever the score; the message is acknowledged and
  counted as processed, and the failed counter does not move. The label \<^verbatim>\<open>predict\<close>
  returns is always one of positive, negative, neutral.
\<close>

theorem classifier_output_stored_unchecked:
  assumes "loads e = Inr (JObject kvs)"
    and "get_result (find_fails e) (db w) (envelope_job_id kvs) = None"
    and "r = result_document e (did (Predict (envelope_text kvs))
                                 (did (GetResult (envelope_job_id kvs)) w)) kvs"
    and "\<not> isl (fst (insert_one (insert_fails e) (db w) r))"
    and "\<not> ack_fails e"
    and "predict (model_loaded w) (model_out e) (envelope_text kvs) = (label, sc)"
  shows "docs (db (process_message e w)) =
           docs (db w) @ [r\<lparr>d_oid := Some (fresh_oid (db w))\<rparr>]
       \<and> d_sentiment r = label \<and> d_score r = sc
       \<and> calls (process_message e w) =
           calls w @ [GetResult (envelope_job_id kvs), Predict (envelope_text kvs),
                      SaveResult r, BasicAck (delivery_tag e)]
       \<and> total_processed (metrics (process_message e w)) = total_processed (metrics w) + 1
       \<and> total_failed (metrics (process_message e w)) = total_failed (metrics w)
       \<and> label \<in> {''positive'', ''negative'', ''neutral''}"
proof -
  note new = process_new_job [OF assms(1,2) refl assms(3,4,5)]
  have "predict (model_loaded (did (Predict (envelope_text kvs))
                                 (did (GetResult (envelope_job_id kvs)) w)))
          (model_out e) (envelope_text kvs) = (label, sc)"
    using assms(6) by simp
  then have fields: "d_sentiment r = label \<and> d_score r = sc"
    unfolding assms(3) by (rule result_document_fields)
  have "label \<in> {''positive'', ''negative'', ''neutral''}"
    using predict_label [of "model_loaded w" "model_out e" "envelope_text kvs"] assms(6) by simp
  with fields new show ?thesis by simp
qed

theorem classifier_output_stored_unchecked_witness:
  "\<exists>r. docs (db (process_message delivery_out_of_range (example_worker empty_store))) = [r]
       \<and> d_sentiment r = ''positive'' \<and> d_score r = 3/2"
proof -
  define r where "r = result_document delivery_out_of_range
                        (did (Predict (envelope_text job_j1))
                           (did (GetResult (envelope_job_id job_j1)) (example_worker empty_store)))
                        job_j1"
  note h = j1_on_empty_store [OF delivery_out_of_range_simps(1,2)]
  have h4: "predict (model_loaded (example_worker empty_store))
              (model_out delivery_out_of_range) (envelope_text job_j1) = (''positive'', 3/2)"
    by (simp add: delivery_out_of_range_simps job_j1_text predict_model_score)
  from classifier_output_stored_unchecked
         [OF delivery_out_of_range_simps(1) h(1) r_def h(2) [folded r_def]
             delivery_out_of_range_simps(5) h4]
  have "docs (db (process_message delivery_out_of_range (example_worker empty_store)))
          = docs (db (example_worker empty_store))
              @ [r\<lparr>d_oid := Some (fresh_oid (db (example_worker empty_store)))\<rparr>]"
    and "d_sentiment r = ''positive''" and "d_score r = 3/2"
    by blast+
  then show ?thesis
    by (intro exI [of _ "r\<lparr>d_oid := Some (fresh_oid (db (example_worker empty_store)))\<rparr>"]) simp
qed

text \<open>
  The model answers 3/2 for job j1: the record is stored with score 3/2, nothing is
  rejected and nothing is counted as failed.
\<close>

theorem out_of_range_score_is_stored:
  "model_out delivery_out_of_range = Some (3/2)
   \<and> \<not> (3/2 \<le> (1::real))
   \<and> map d_score (docs (db (process_message delivery_out_of_range
                               (example_worker empty_store)))) = [3/2]
   \<and> rejections (calls (process_message delivery_out_of_range
                          (example_worker empty_store))) = []
   \<and> total_failed (metrics (process_message delivery_out_of_range
                              (example_worker empty_store))) = 0
   \<and> total_processed (metrics (process_message delivery_out_of_range
                                 (example_worker empty_store))) = 1"
proof -
  define w2 where "w2 = did (Predict (envelope_text job_j1))
                          (did (GetResult (envelope_job_id job_j1)) (example_worker empty_store))"
  define r where "r = result_document delivery_out_of_range w2 job_j1"
  note h = j1_on_empty_store [OF delivery_out_of_range_simps(1,2)]
  note new = process_new_job
               [OF delivery_out_of_range_simps(1) h(1) w2_def r_def
                   h(2) [folded w2_def r_def] delivery_out_of_range_simps(5)]
  have "d_score r = 3/2"
    by (simp add: r_def w2_def result_document_def delivery_out_of_range_simps job_j1_text
          predict_model_score)
  then show ?thesis
    by (simp add: new delivery_out_of_range_simps)
qed

text \<open>
  C3 (as the code has it). A failure inside the classifier never reaches the worker:
  \<^verbatim>\<open>predict\<close> catches it and answers neutral with score 0.5. For every parsed job for
  which the duplicate check finds no record and whose insert and acknowledgement go
  through, a failing classifier therefore ends in a stored record with sentiment neutral
  and score 0.5, an acknowledgement and the processed counter growing by one; the failed
  counter does not move and the message is not rejected.
\<close>

theorem classifier_failure_is_stored_as_neutral:
  assumes "loads e = Inr (JObject kvs)"
    and "get_result (find_fails e) (db w) (envelope_job_id kvs) = None"
    and "r = result_document e (did (Predict (envelope_text kvs))
                                 (did (GetResult (envelope_job_id kvs)) w)) kvs"
    and "\<not> isl (fst (insert_one (insert_fails e) (db w) r))"
    and "\<not> ack_fails e"
    and "predict_try (model_loaded w) (model_out e) (envelope_text kvs) = None"
  shows "docs (db (process_message e w)) =
           docs (db w) @ [r\<lparr>d_oid := Some (fresh_oid (db w))\<rparr>]
       \<and> d_job_id r = envelope_job_id kvs
       \<and> d_sentiment r = ''neutral'' \<and> d_score r = 0.5
       \<and> calls (process_message e w) =
           calls w @ [GetResult (envelope_job_id kvs), Predict (envelope_text kvs),
                      SaveResult r, BasicAck (delivery_tag e)]
       \<and> rejections (calls (process_message e w)) = rejections (calls w)
       \<and> total_processed (metrics (process_message e w)) = total_processed (metrics w) + 1
       \<and> total_failed (metrics (process_message e w)) = total_failed (metrics w)"
proof -
  note new = process_new_job [OF assms(1,2) refl assms(3,4,5)]
  have "predict (model_loaded (did (Predict (envelope_text kvs))
                                 (did (GetResult (envelope_job_id kvs)) w)))
          (model_out e) (envelope_text kvs) = (''neutral'', 0.5)"
    using assms(6) by (simp add: predict_fallback)
  then have "d_sentiment r = ''neutral'' \<and> d_score r = 0.5"
    unfolding assms(3) by (rule result_document_fields)
  moreover have "d_job_id r = envelope_job_id kvs" by (simp add: assms(3))
  ultimately show ?thesis using new by simp
qed

theorem classifier_failure_is_stored_as_neutral_witness:
  "\<exists>r. docs (db (process_message delivery_model_raises (example_worker empty_store))) = [r]
       \<and> d_sentiment r = ''neutral'' \<and> d_score r = 0.5"
proof -
  define r where "r = result_document delivery_model_raises
                        (did (Predict (envelope_text job_j1))
                           (did (GetResult (envelope_job_id job_j1)) (example_worker empty_store)))
                        job_j1"
  note h = j1_on_empty_store [OF delivery_model_raises_simps(1,2)]
  have h4: "predict_try (model_loaded (example_worker empty_store))
              (model_out delivery_model_raises) (envelope_text job_j1) = None"
    by (simp add: delivery_model_raises_simps predict_try_def)
  from classifier_failure_is_stored_as_neutral
         [OF delivery_model_raises_simps(1) h(1) r_def h(2) [folded r_def]
             delivery_model_raises_simps(5) h4]
  have "docs (db (process_message delivery_model_raises (example_worker empty_store)))
          = docs (db (example_worker empty_store))
              @ [r\<lparr>d_oid := Some (fresh_oid (db (example_worker empty_store)))\<rparr>]"
    and "d_sentiment r = ''neutral''" and "d_score r = 0.5"
    by blast+
  then show ?thesis
    by (intro exI [of _ "r\<lparr>d_oid := Some (fresh_oid (db (example_worker empty_store)))\<rparr>"]) simp
qed

text \<open>
  The model raises on job j1: a neutral record is stored, nothing is rejected and nothing
  is counted as failed.
\<close>

theorem classifier_failure_is_not_requeued:
  "model_out delivery_model_raises = None
   \<and> map d_sentiment (docs (db (process_message delivery_model_raises
                                   (example_worker empty_store)))) = [''neutral'']
   \<and> rejections (calls (process_message delivery_model_raises
                          (example_worker empty_store))) = []
   \<and> total_failed (metrics (process_message delivery_model_raises
                              (example_worker empty_store))) = 0
   \<and> total_processed (metrics (process_message delivery_model_raises
                                 (example_worker empty_store))) = 1"
proof -
  define w2 where "w2 = did (Predict (envelope_text job_j1))
                          (did (GetResult (envelope_job_id job_j1)) (example_worker empty_store))"
  define r where "r = result_document delivery_model_raises w2 job_j1"
  note h = j1_on_empty_store [OF delivery_model_raises_simps(1,2)]
  note new = process_new_job
               [OF delivery_model_raises_simps(1) h(1) w2_def r_def
                   h(2) [folded w2_def r_def] delivery_model_raises_simps(5)]
  have "d_sentiment r = ''neutral''"
    by (simp add: r_def w2_def result_document_def delivery_model_raises_simps
          predict_def predict_try_def)
  then show ?thesis
    by (simp add: new delivery_model_raises_simps)
qed

subsection \<open>The two handlers\<close>

lemma json_decode_error_is_dead_lettered:
  assumes "loads e = Inl JSONDecodeError"
  shows "process_message e w = count_failed (did (BasicNack (delivery_tag e) False) w)"
  using assms by (simp add: process_message_def try_block_def)

lemma other_loads_error_is_requeued:
  assumes "loads e = Inl x" and "x \<noteq> JSONDecodeError"
  shows "process_message e w = count_failed (did (BasicNack (delivery_tag e) True) w)"
  using assms by (simp add: process_message_def try_block_def)

text \<open>
  C4 (at the failing input). A body whose bytes are not valid UTF-8 makes
  \<^verbatim>\<open>json.loads\<close> raise \<^verbatim>\<open>UnicodeDecodeError\<close>, which is a \<^verbatim>\<open>ValueError\<close> but not a
  \<^verbatim>\<open>JSONDecodeError\<close>: the first handler does not match and the second one rejects the
  message with requeue, so the broker delivers it again. (A body on which
  \<^verbatim>\<open>json.loads\<close> raises \<^verbatim>\<open>JSONDecodeError\<close> is rejected without requeue, see
  \<open>json_decode_error_is_dead_lettered\<close>.)
\<close>

theorem undecodable_body_is_requeued:
  "loads delivery_not_utf8 = Inl UnicodeDecodeError
   \<and> rejections (calls (process_message delivery_not_utf8 (example_worker empty_store)))
       = [(1, True)]
   \<and> dead_lettered (calls (process_message delivery_not_utf8 (example_worker empty_store)))
       = []
   \<and> total_failed (metrics (process_message delivery_not_utf8 (example_worker empty_store))) = 1
   \<and> db (process_message delivery_not_utf8 (example_worker empty_store)) = empty_store"
proof -
  have l: "loads delivery_not_utf8 = Inl UnicodeDecodeError"
    and t: "delivery_tag delivery_not_utf8 = 1"
    by (simp_all add: delivery_not_utf8_def example_delivery_def)
  have "process_message delivery_not_utf8 (example_worker empty_store) =
          count_failed (did (BasicNack (delivery_tag delivery_not_utf8) True)
                          (example_worker empty_store))"
    using l by (rule other_loads_error_is_requeued) simp
  then show ?thesis using l t by simp
qed

lemma isl_case_sum: "isl (case s of Inl x \<Rightarrow> Inl (f x) | Inr y \<Rightarrow> Inr (g y)) = isl s"
  by (cases s) simp_all







subsection \<open>Failures of the store\<close>



lemma save_failure_step:
  assumes "loads e = Inr (JObject kvs)"
    and "get_result (find_fails e) (db w) (envelope_job_id kvs) = None"
    and "w2 = did (Predict (envelope_text kvs)) (did (GetResult (envelope_job_id kvs)) w)"
    and "isl (save_result (insert_fails e) (update_fails e) (db w) (result_document e w2 kvs))"
  shows "process_message e w =
           count_failed (did (BasicNack (delivery_tag e) True)
                           (did (SaveResult (result_document e w2 kvs)) w2))"
proof -
  from assms(4) obtain x
    where x: "save_result (insert_fails e) (update_fails e) (db w) (result_document e w2 kvs)
                = Inl x"
    by (cases "save_result (insert_fails e) (update_fails e) (db w) (result_document e w2 kvs)")
       auto
  then have "x \<noteq> JSONDecodeError" using save_result_exception by blast
  then show ?thesis using assms(1,2) x
    by (simp add: process_message_def try_block_def Let_def assms(3))
qed

lemma read_failure_goes_on:
  assumes "loads e = Inr (JObject kvs)" and "find_fails e"
  shows "\<exists>r c. calls (process_message e w) =
           calls w @ [GetResult (envelope_job_id kvs), Predict (envelope_text kvs), SaveResult r, c]"
proof -
  have g: "get_result (find_fails e) (db w) (envelope_job_id kvs) = None"
    using assms(2) by (simp add: get_result_read_failure)
  show ?thesis
  proof (cases "save_result (insert_fails e) (update_fails e) (db w)
                 (result_document e (did (Predict (envelope_text kvs))
                    (did (GetResult (envelope_job_id kvs)) w)) kvs)")
    case (Inl x)
    then have "x \<noteq> JSONDecodeError" using save_result_exception by blast
    then show ?thesis using assms(1) g Inl
      by (simp add: process_message_def try_block_def Let_def)
  next
    case (Inr s')
    then show ?thesis using assms(1) g
      by (simp add: process_message_def try_block_def Let_def count_processed_def)
  qed
qed

text \<open>
  C7 (as the code has it). For every parsed job: when \<^verbatim>\<open>save_result\<close> raises (a failure
  of the store during the insert or during the fallback update is not caught there), the
  worker rejects the message with requeue, counts it as failed and leaves the collection
  as it was. A failure of the store during the duplicate-check read does not surface:
  \<^verbatim>\<open>get_result\<close> answers that there is no record, and the worker goes on to call the
  classifier and to save.
\<close>

theorem save_failure_requeued_read_failure_ignored:
  assumes "loads e = Inr (JObject kvs)"
  shows "(find_fails e \<longrightarrow>
            get_result (find_fails e) (db w) (envelope_job_id kvs) = None
          \<and> (\<exists>r c. calls (process_message e w) =
                 calls w @ [GetResult (envelope_job_id kvs), Predict (envelope_text kvs),
                            SaveResult r, c]))
       \<and> (get_result (find_fails e) (db w) (envelope_job_id kvs) = None
          \<and> isl (save_result (insert_fails e) (update_fails e) (db w)
                   (result_document e (did (Predict (envelope_text kvs))
                      (did (GetResult (envelope_job_id kvs)) w)) kvs)) \<longrightarrow>
            rejections (calls (process_message e w)) =
              rejections (calls w) @ [(delivery_tag e, True)]
          \<and> total_failed (metrics (process_message e w)) = total_failed (metrics w) + 1
          \<and> total_processed (metrics (process_message e w)) = total_processed (metrics w)
          \<and> db (process_message e w) = db w)"
proof (intro conjI impI)
  assume "find_fails e"
  then show "get_result (find_fails e) (db w) (envelope_job_id kvs) = None"
    by (simp add: get_result_read_failure)
next
  assume "find_fails e"
  with assms show "\<exists>r c. calls (process_message e w) =
                 calls w @ [GetResult (envelope_job_id kvs), Predict (envelope_text kvs),
                            SaveResult r, c]"
    by (rule read_failure_goes_on)
next
  assume a: "get_result (find_fails e) (db w) (envelope_job_id kvs) = None
          \<and> isl (save_result (insert_fails e) (update_fails e) (db w)
                   (result_document e (did (Predict (envelope_text kvs))
                      (did (GetResult (envelope_job_id kvs)) w)) kvs))"
  note step = save_failure_step [OF assms conjunct1 [OF a] refl conjunct2 [OF a]]
  show "rejections (calls (process_message e w)) =
              rejections (calls w) @ [(delivery_tag e, True)]" by (simp add: step)
  show "total_failed (metrics (process_message e w)) = total_failed (metrics w) + 1"
    by (simp add: step)
  show "total_processed (metrics (process_message e w)) = total_processed (metrics w)"
    by (simp add: step)
  show "db (process_message e w) = db w" by (simp add: step)
qed

theorem save_failure_requeued_read_failure_ignored_witness:
  "(\<exists>r c. calls (process_message (delivery_read_fails 1) (example_worker empty_store)) =
            [GetResult (JString ''j1''), Predict (JString ''I love this''), SaveResult r, c])
   \<and> rejections (calls (process_message (delivery_insert_fails 1) (example_worker empty_store)))
       = [(1, True)]
   \<and> total_failed (metrics (process_message (delivery_insert_fails 1)
                              (example_worker empty_store))) = 1
   \<and> db (process_message (delivery_insert_fails 1) (example_worker empty_store)) = empty_store"
proof -
  from save_failure_requeued_read_failure_ignored
         [OF delivery_read_fails_simps(1), of 1 "example_worker empty_store"]
  have "\<exists>r c. calls (process_message (delivery_read_fails 1) (example_worker empty_store)) =
            [GetResult (JString ''j1''), Predict (JString ''I love this''), SaveResult r, c]"
    by (simp add: delivery_read_fails_simps job_j1_id job_j1_text)
  moreover
  have "get_result (find_fails (delivery_insert_fails 1)) (db (example_worker empty_store))
          (envelope_job_id job_j1) = None"
    by (simp add: get_result_unseen)
  moreover
  have "isl (save_result (insert_fails (delivery_insert_fails 1))
               (update_fails (delivery_insert_fails 1)) (db (example_worker empty_store))
               (result_document (delivery_insert_fails 1)
                  (did (Predict (envelope_text job_j1))
                     (did (GetResult (envelope_job_id job_j1)) (example_worker empty_store)))
                  job_j1))"
    by (simp add: save_result_insert_fails delivery_insert_fails_simps)
  ultimately show ?thesis
    using save_failure_requeued_read_failure_ignored
            [OF delivery_insert_fails_simps(1), of 1 "example_worker empty_store"]
    by (simp add: delivery_insert_fails_simps)
qed

text \<open>
  The read fails while job j1 is delivered to a worker on an empty collection, and the
  insert then goes through: the message is acknowledged and counted as processed, nothing
  is rejected and nothing is counted as failed. The same failing read on a collection
  that already holds a record for j1: the classifier is called all the same.
\<close>

theorem read_failure_is_swallowed:
  "find_fails (delivery_read_fails 1)
   \<and> rejections (calls (process_message (delivery_read_fails 1) (example_worker empty_store))) = []
   \<and> total_failed (metrics (process_message (delivery_read_fails 1)
                              (example_worker empty_store))) = 0
   \<and> total_processed (metrics (process_message (delivery_read_fails 1)
                                 (example_worker empty_store))) = 1
   \<and> count_job store_with_j1 (JString ''j1'') = 1
   \<and> Predict (JString ''I love this'')
       \<in> set (calls (process_message (delivery_read_fails 2) (example_worker store_with_j1)))"
proof -
  define w2 where "w2 = did (Predict (envelope_text job_j1))
                          (did (GetResult (envelope_job_id job_j1)) (example_worker empty_store))"
  define r where "r = result_document (delivery_read_fails 1) w2 job_j1"
  have h2: "count_job (db (example_worker empty_store)) (JString ''j1'') = 0"
    by simp
  note new = process_new_string_job
               [OF delivery_read_fails_simps(1) job_j1_id h2 delivery_read_fails_simps(3)
                   delivery_read_fails_simps(6) w2_def r_def]
  from read_failure_goes_on
         [OF delivery_read_fails_simps(1) delivery_read_fails_simps(2),
          of 2 "example_worker store_with_j1"]
  have "Predict (JString ''I love this'')
       \<in> set (calls (process_message (delivery_read_fails 2) (example_worker store_with_j1)))"
    by (auto simp: job_j1_text)
  then show ?thesis
    by (simp del: One_nat_def add: new delivery_read_fails_simps count_job_store_with_j1)
qed

subsection \<open>The conflict path of save\_result\<close>

text \<open>
  C6 (at the failing input). Two workers race on job j1 with the unique index in place.
  The insert of the first goes through. The insert of the second raises
  \<^verbatim>\<open>DuplicateKeyError\<close>, after the driver has put a new \<^verbatim>\<open>_id\<close> into the second worker's
  dict; the fallback \<^verbatim>\<open>update_one\<close> sends that dict as \<^verbatim>\<open>$set\<close>, the server refuses to
  change the \<^verbatim>\<open>_id\<close> of the stored record, and the \<^verbatim>\<open>WriteError\<close> leaves
  \<^verbatim>\<open>save_result\<close>. One record exists afterwards, with the first worker's fields.
\<close>

theorem racing_update_is_refused:
  "save_result False False empty_store racing_result_a =
     Inr \<lparr>docs = [racing_result_a\<lparr>d_oid := Some 1\<rparr>], unique_job_id = True\<rparr>
   \<and> save_result False False
        \<lparr>docs = [racing_result_a\<lparr>d_oid := Some 1\<rparr>], unique_job_id = True\<rparr> racing_result_b =
     Inl WriteError
   \<and> d_job_id racing_result_a = d_job_id racing_result_b
   \<and> count_job \<lparr>docs = [racing_result_a\<lparr>d_oid := Some 1\<rparr>], unique_job_id = True\<rparr>
        (JString ''j1'') = 1"
  by (simp add: save_result_def insert_one_def update_one_def Let_def empty_store_def
        fresh_oid_def oid_number_def racing_result_a_def racing_result_b_def count_job_def
        query_match_def key_conflict_def)

subsection \<open>Messages without the envelope's fields\<close>







subsection \<open>Counters and metrics\<close>

text \<open>
  The failed counter never goes down, and a delivery that is not counted as failed moves
  exactly one of the other two counters, by one.
\<close>

lemma process_message_counts:
  "total_failed (metrics w) \<le> total_failed (metrics (process_message e w))"
  "total_failed (metrics (process_message e w)) = total_failed (metrics w) \<Longrightarrow>
     total_processed (metrics (process_message e w))
       + total_duplicates (metrics (process_message e w))
     = total_processed (metrics w) + total_duplicates (metrics w) + 1"
  "start_time (metrics (process_message e w)) = start_time (metrics w)"
  "worker_id (process_message e w) = worker_id w"
  by (auto simp: process_message_def try_block_def Let_def count_duplicate_def
        count_processed_def count_failed_def did_def
        split: sum.splits json.splits option.splits if_splits)

lemma consume_failed_mono:
  "total_failed (metrics w) \<le> total_failed (metrics (consume es w))"
proof (induction es arbitrary: w)
  case Nil
  then show ?case by simp
next
  case (Cons e es)
  have "total_failed (metrics w) \<le> total_failed (metrics (process_message e w))"
    by (rule process_message_counts(1))
  also have "\<dots> \<le> total_failed (metrics (consume es (process_message e w)))"
    by (rule Cons.IH)
  finally show ?case by simp
qed

lemma consume_counts:
  "total_failed (metrics (consume es w)) = total_failed (metrics w) \<Longrightarrow>
     total_processed (metrics (consume es w)) + total_duplicates (metrics (consume es w))
     = total_processed (metrics w) + total_duplicates (metrics w) + length es"
proof (induction es arbitrary: w)
  case Nil
  then show ?case by simp
next
  case (Cons e es)
  have a: "total_failed (metrics w) \<le> total_failed (metrics (process_message e w))"
    by (rule process_message_counts(1))
  have b: "total_failed (metrics (process_message e w))
             \<le> total_failed (metrics (consume es (process_message e w)))"
    by (rule consume_failed_mono)
  from Cons.prems have c: "total_failed (metrics (consume es (process_message e w)))
                             = total_failed (metrics w)"
    by simp
  from a b c have f: "total_failed (metrics (process_message e w)) = total_failed (metrics w)"
    by simp
  with c have "total_failed (metrics (consume es (process_message e w)))
                 = total_failed (metrics (process_message e w))"
    by simp
  from Cons.IH [OF this] process_message_counts(2) [OF f] show ?case by simp
qed

lemma consume_start_time: "start_time (metrics (consume es w)) = start_time (metrics w)"
  by (induction es arbitrary: w) (simp_all add: process_message_counts(3))

text \<open>
  C9. \<^verbatim>\<open>get_metrics\<close> reports the uptime as the clock reading minus the recorded start
  time, and the processing rate as the processed counter divided by the uptime, or 0 when
  the uptime is not positive. A worker that starts with its counters at zero, consumes N
  deliveries and ends with no failure and no duplicate counted, read T seconds after its
  start (T positive), reports N processed jobs and the rate N / T.
\<close>

theorem metrics_after_clean_run:
  assumes "total_processed (metrics w) = 0"
    and "total_failed (metrics w) = 0"
    and "total_duplicates (metrics w) = 0"
    and "total_failed (metrics (consume es w)) = 0"
    and "total_duplicates (metrics (consume es w)) = 0"
    and "0 < T"
  shows "r_uptime (get_metrics now w') = now - start_time (metrics w')
       \<and> r_processing_rate (get_metrics now w') =
           (if now - start_time (metrics w') > 0
            then real (total_processed (metrics w')) / (now - start_time (metrics w')) else 0)
       \<and> r_total_processed (get_metrics (start_time (metrics w) + T) (consume es w)) = length es
       \<and> r_uptime (get_metrics (start_time (metrics w) + T) (consume es w)) = T
       \<and> r_processing_rate (get_metrics (start_time (metrics w) + T) (consume es w)) =
           real (length es) / T"
proof -
  have "total_failed (metrics (consume es w)) = total_failed (metrics w)"
    using assms(2,4) by simp
  then have n: "total_processed (metrics (consume es w)) = length es"
    using consume_counts [of es w] assms(1,3,5) by simp
  have s: "start_time (metrics (consume es w)) = start_time (metrics w)"
    by (rule consume_start_time)
  show ?thesis using n s assms(6)
    by (simp add: get_metrics_def Let_def)
qed

lemma two_jobs_run:
  "metrics (consume [delivery_j1 1, delivery_without_id 2 job_without_id]
              (example_worker empty_store))
   = \<lparr>total_processed = 2, total_failed = 0, total_duplicates = 0, start_time = 100\<rparr>"
proof -
  define w1 where "w1 = process_message (delivery_j1 1) (example_worker empty_store)"
  define a where "a = did (Predict (envelope_text job_j1))
                        (did (GetResult (envelope_job_id job_j1)) (example_worker empty_store))"
  define r where "r = result_document (delivery_j1 1) a job_j1"
  have h: "count_job (db (example_worker empty_store)) (JString ''j1'') = 0" by simp
  note first = process_new_string_job
                 [OF delivery_j1_simps(1) job_j1_id h delivery_j1_simps(2) delivery_j1_simps(5)
                     a_def r_def, folded w1_def]
  have j: "envelope_job_id job_without_id = JString ''unknown''"
    by (simp add: envelope_job_id_def dict_get_def job_without_id_def)
  have h2: "count_job (db w1) (JString ''unknown'') = 0"
    by (simp add: first(1) count_job_def r_def job_j1_id query_match_def)
  note second = process_new_string_job
                  [OF delivery_without_id_simps(1) j h2 delivery_without_id_simps(2)
                      delivery_without_id_simps(5) refl refl]
  have "consume [delivery_j1 1, delivery_without_id 2 job_without_id] (example_worker empty_store)
          = process_message (delivery_without_id 2 job_without_id) w1"
    by (simp add: w1_def)
  then show ?thesis
    by (simp add: second(3) first(3) example_worker_def)
qed

theorem metrics_after_clean_run_witness:
  "r_total_processed (get_metrics 104 (consume [delivery_j1 1, delivery_without_id 2 job_without_id]
                                         (example_worker empty_store))) = 2
   \<and> r_uptime (get_metrics 104 (consume [delivery_j1 1, delivery_without_id 2 job_without_id]
                                   (example_worker empty_store))) = 4
   \<and> r_processing_rate (get_metrics 104 (consume [delivery_j1 1, delivery_without_id 2 job_without_id]
                                            (example_worker empty_store))) = 1 / 2"
proof -
  have z: "total_processed (metrics (example_worker empty_store)) = 0"
    "total_failed (metrics (example_worker empty_store)) = 0"
    "total_duplicates (metrics (example_worker empty_store)) = 0"
    by simp_all
  have f: "total_failed (metrics (consume [delivery_j1 1, delivery_without_id 2 job_without_id]
              (example_worker empty_store))) = 0"
    and d: "total_duplicates (metrics (consume [delivery_j1 1, delivery_without_id 2 job_without_id]
              (example_worker empty_store))) = 0"
    by (simp_all only: two_jobs_run metrics.simps)
  have t: "(0::real) < 4" by simp
  have e: "start_time (metrics (example_worker empty_store)) + 4 = 104" by simp
  have l: "real (length [delivery_j1 1, delivery_without_id 2 job_without_id]) / 4 = 1 / 2"
    "length [delivery_j1 1, delivery_without_id 2 job_without_id] = 2"
    by simp_all
  note r = metrics_after_clean_run [OF z f d t, of 0 "example_worker empty_store", unfolded e l]
  have h: "real 2 / 4 = 1 / 2" by simp
  from r show ?thesis unfolding h by blast
qed

subsection \<open>Connecting to the broker\<close>

lemma attempts_upto_step:
  "a < k \<Longrightarrow> attempts_upto d a k = [Connect a, Sleep d] @ attempts_upto d (Suc a) k"
  by (simp add: attempts_upto_def upt_rec [of a k])

lemma attempts_upto_self: "attempts_upto d a a = [Connect a]"
  by (simp add: attempts_upto_def)

lemma connects_attempts_upto: "a \<le> k \<Longrightarrow> connects (attempts_upto d a k) = [a..<Suc k]"
proof (induction "k - a" arbitrary: a)
  case 0
  then have "a = k" by simp
  then show ?case by (simp add: attempts_upto_self)
next
  case (Suc m)
  then have "a < k" by simp
  moreover have "connects (attempts_upto d (Suc a) k) = [Suc a..<Suc k]"
    using Suc by (intro Suc.hyps(1)) simp_all
  ultimately show ?case
    by (simp add: attempts_upto_step upt_conv_Cons)
qed

lemma sleeps_attempts_upto: "a \<le> k \<Longrightarrow> sleeps (attempts_upto d a k) = replicate (k - a) d"
proof (induction "k - a" arbitrary: a)
  case 0
  then have "a = k" by simp
  then show ?case by (simp add: attempts_upto_self)
next
  case (Suc m)
  then have "a < k" by simp
  moreover have "sleeps (attempts_upto d (Suc a) k) = replicate (k - Suc a) d"
    using Suc by (intro Suc.hyps(1)) simp_all
  moreover have "k - a = Suc (k - Suc a)" using \<open>a < k\<close> by simp
  ultimately show ?case
    by (simp add: attempts_upto_step)
qed

text \<open>
  The shape of a run of the worker's loop from attempt \<^verbatim>\<open>a\<close> on: it ends at some attempt
  \<^verbatim>\<open>k\<close> below the maximum, every attempt before \<^verbatim>\<open>k\<close> raised a connection error and was
  followed by one sleep, and attempt \<^verbatim>\<open>k\<close> either succeeded or raised; a connection error
  is raised to the caller only at the last attempt.
\<close>

lemma setup_attempts_shape:
  assumes "a < n"
  shows "\<exists>k. a \<le> k \<and> k < n
           \<and> snd (setup_attempts n d answer [a..<n] tr) = tr @ attempts_upto d a k
           \<and> (\<forall>i. a \<le> i \<and> i < k \<longrightarrow> answer i = Some AMQPConnectionError)
           \<and> (fst (setup_attempts n d answer [a..<n] tr) = Inr (Some k) \<and> answer k = None
              \<or> (\<exists>x. fst (setup_attempts n d answer [a..<n] tr) = Inl x \<and> answer k = Some x
                    \<and> (x = AMQPConnectionError \<longrightarrow> Suc k = n)))"
  using assms
proof (induction "n - a" arbitrary: a tr)
  case 0
  then show ?case by simp
next
  case (Suc m)
  have unfold: "[a..<n] = a # [Suc a..<n]" using Suc.prems by (simp add: upt_rec)
  show ?case
  proof (cases "answer a")
    case None
    then show ?thesis using Suc.prems unfold
      by (intro exI [of _ a]) (auto simp: attempts_upto_self)
  next
    case (Some x)
    show ?thesis
    proof (cases "x = AMQPConnectionError \<and> Suc a < n")
      case False
      then have "fst (setup_attempts n d answer [a..<n] tr) = Inl x"
        and "snd (setup_attempts n d answer [a..<n] tr) = tr @ attempts_upto d a a"
        using Some unfold Suc.prems by (auto simp: attempts_upto_self)
      then show ?thesis using Some False Suc.prems
        by (intro exI [of _ a]) auto
    next
      case True
      then have step: "setup_attempts n d answer [a..<n] tr =
                   setup_attempts n d answer [Suc a..<n] (tr @ [Connect a, Sleep d])"
        using Some unfold by simp
      have "m = n - Suc a" using Suc.hyps(2) by simp
      from Suc.hyps(1) [OF this, of "tr @ [Connect a, Sleep d]"] True
      obtain k where k: "Suc a \<le> k" "k < n"
        "snd (setup_attempts n d answer [Suc a..<n] (tr @ [Connect a, Sleep d]))
           = (tr @ [Connect a, Sleep d]) @ attempts_upto d (Suc a) k"
        "\<forall>i. Suc a \<le> i \<and> i < k \<longrightarrow> answer i = Some AMQPConnectionError"
        "fst (setup_attempts n d answer [Suc a..<n] (tr @ [Connect a, Sleep d])) = Inr (Some k)
             \<and> answer k = None
           \<or> (\<exists>x. fst (setup_attempts n d answer [Suc a..<n] (tr @ [Connect a, Sleep d])) = Inl x
                    \<and> answer k = Some x \<and> (x = AMQPConnectionError \<longrightarrow> Suc k = n))"
        by auto
      have "\<forall>i. a \<le> i \<and> i < k \<longrightarrow> answer i = Some AMQPConnectionError"
        using k(4) Some True by (metis Suc_leI le_neq_implies_less)
      moreover have "a < k" using k(1) by simp
      ultimately show ?thesis using k step
        by (intro exI [of _ k]) (simp add: attempts_upto_step [of a k d])
    qed
  qed
qed

lemma create_attempts_shape:
  assumes "a < n"
  shows "\<exists>k. a \<le> k \<and> k < n
           \<and> snd (create_attempts n d answer [a..<n] tr) = tr @ attempts_upto d a k
           \<and> (\<forall>i. a \<le> i \<and> i < k \<longrightarrow> answer i = Some AMQPConnectionError)
           \<and> (fst (create_attempts n d answer [a..<n] tr) = Inr (Some k) \<and> answer k = None
              \<or> (\<exists>x. fst (create_attempts n d answer [a..<n] tr) = Inl x \<and> answer k = Some x
                    \<and> (x = AMQPConnectionError \<longrightarrow> Suc k = n)))"
  using assms
proof (induction "n - a" arbitrary: a tr)
  case 0
  then show ?case by simp
next
  case (Suc m)
  have unfold: "[a..<n] = a # [Suc a..<n]" using Suc.prems by (simp add: upt_rec)
  show ?case
  proof (cases "answer a")
    case None
    then show ?thesis using Suc.prems unfold
      by (intro exI [of _ a]) (auto simp: attempts_upto_self)
  next
    case (Some x)
    show ?thesis
    proof (cases "x = AMQPConnectionError \<and> Suc a < n")
      case False
      then have "x = AMQPConnectionError \<longrightarrow> int a = int n - 1"
        using Suc.prems by auto
      then have "fst (create_attempts n d answer [a..<n] tr) = Inl x"
        and "snd (create_attempts n d answer [a..<n] tr) = tr @ attempts_upto d a a"
        using Some unfold by (auto simp: attempts_upto_self)
      then show ?thesis using Some False Suc.prems
        by (intro exI [of _ a]) auto
    next
      case True
      then have "int a \<noteq> int n - 1" by auto
      then have step: "create_attempts n d answer [a..<n] tr =
                   create_attempts n d answer [Suc a..<n] (tr @ [Connect a, Sleep d])"
        using Some unfold True by simp
      have "m = n - Suc a" using Suc.hyps(2) by simp
      from Suc.hyps(1) [OF this, of "tr @ [Connect a, Sleep d]"] True
      obtain k where k: "Suc a \<le> k" "k < n"
        "snd (create_attempts n d answer [Suc a..<n] (tr @ [Connect a, Sleep d]))
           = (tr @ [Connect a, Sleep d]) @ attempts_upto d (Suc a) k"
        "\<forall>i. Suc a \<le> i \<and> i < k \<longrightarrow> answer i = Some AMQPConnectionError"
        "fst (create_attempts n d answer [Suc a..<n] (tr @ [Connect a, Sleep d])) = Inr (Some k)
             \<and> answer k = None
           \<or> (\<exists>x. fst (create_attempts n d answer [Suc a..<n] (tr @ [Connect a, Sleep d])) = Inl x
                    \<and> answer k = Some x \<and> (x = AMQPConnectionError \<longrightarrow> Suc k = n))"
        by auto
      have "\<forall>i. a \<le> i \<and> i < k \<longrightarrow> answer i = Some AMQPConnectionError"
        using k(4) Some True by (metis Suc_leI le_neq_implies_less)
      moreover have "a < k" using k(1) by simp
      ultimately show ?thesis using k step
        by (intro exI [of _ k]) (simp add: attempts_upto_step [of a k d])
    qed
  qed
qed


text \<open>
  C8. The worker's \<^verbatim>\<open>setup_rabbitmq\<close> makes at most 5 attempts, numbered from 0, and sleeps
  5 seconds after each attempt that raised a connection error and was not the last; the
  producer's \<^verbatim>\<open>_create_connection\<close> makes at most 3 attempts with 2 seconds between
  them. Both are total: whatever the broker answers, the run ends at some attempt \<^verbatim>\<open>k\<close>,
  either with a connection, or with the exception of attempt \<^verbatim>\<open>k\<close> raised to the caller
  (a connection error only at the last attempt, any other exception at once). A raised
  exception leaves the worker's constructor, so no worker starts, and makes
  \<^verbatim>\<open>publish_message\<close> raise.
\<close>

theorem broker_connection_is_bounded:
  "(\<exists>k<5. snd (setup_rabbitmq answer) = attempts_upto 5 0 k
        \<and> connects (snd (setup_rabbitmq answer)) = [0..<Suc k]
        \<and> sleeps (snd (setup_rabbitmq answer)) = replicate k 5
        \<and> (\<forall>i<k. answer i = Some AMQPConnectionError)
        \<and> (fst (setup_rabbitmq answer) = Inr (Some k) \<and> answer k = None
           \<or> (\<exists>x. fst (setup_rabbitmq answer) = Inl x \<and> answer k = Some x
                 \<and> (x = AMQPConnectionError \<longrightarrow> k = 4)
                 \<and> fst (worker_init wid m None s answer now) = Inl x)))
   \<and> (\<exists>k<3. snd (create_connection answer') = attempts_upto 2 0 k
        \<and> connects (snd (create_connection answer')) = [0..<Suc k]
        \<and> sleeps (snd (create_connection answer')) = replicate k 2
        \<and> (\<forall>i<k. answer' i = Some AMQPConnectionError)
        \<and> (fst (create_connection answer') = Inr (Some k) \<and> answer' k = None
           \<or> (\<exists>x. fst (create_connection answer') = Inl x \<and> answer' k = Some x
                 \<and> (x = AMQPConnectionError \<longrightarrow> k = 2)
                 \<and> fst (publish_message answer' channel_answer) =
                     Inl (if is_AMQPError x then PublishFailed else x))))"
proof
  from setup_attempts_shape [of 0 5 5 answer "[]"]
  obtain k where k: "k < 5" "snd (setup_rabbitmq answer) = attempts_upto 5 0 k"
    "\<forall>i<k. answer i = Some AMQPConnectionError"
    "fst (setup_rabbitmq answer) = Inr (Some k) \<and> answer k = None
       \<or> (\<exists>x. fst (setup_rabbitmq answer) = Inl x \<and> answer k = Some x
             \<and> (x = AMQPConnectionError \<longrightarrow> Suc k = 5))"
    by (auto simp: setup_rabbitmq_def)
  have init: "fst (worker_init wid m None s answer now) = Inl x"
    if "fst (setup_rabbitmq answer) = Inl x" for x
    using that by (cases "setup_rabbitmq answer") (simp add: worker_init_def)
  have "fst (setup_rabbitmq answer) = Inr (Some k) \<and> answer k = None
           \<or> (\<exists>x. fst (setup_rabbitmq answer) = Inl x \<and> answer k = Some x
                 \<and> (x = AMQPConnectionError \<longrightarrow> k = 4)
                 \<and> fst (worker_init wid m None s answer now) = Inl x)"
    using k(4) init by auto
  then show "\<exists>k<5. snd (setup_rabbitmq answer) = attempts_upto 5 0 k
        \<and> connects (snd (setup_rabbitmq answer)) = [0..<Suc k]
        \<and> sleeps (snd (setup_rabbitmq answer)) = replicate k 5
        \<and> (\<forall>i<k. answer i = Some AMQPConnectionError)
        \<and> (fst (setup_rabbitmq answer) = Inr (Some k) \<and> answer k = None
           \<or> (\<exists>x. fst (setup_rabbitmq answer) = Inl x \<and> answer k = Some x
                 \<and> (x = AMQPConnectionError \<longrightarrow> k = 4)
                 \<and> fst (worker_init wid m None s answer now) = Inl x))"
    using k(1,2,3)
    by (intro exI [of _ k]) (simp add: connects_attempts_upto sleeps_attempts_upto)
next
  from create_attempts_shape [of 0 3 2 answer' "[]"]
  obtain k where k: "k < 3" "snd (create_connection answer') = attempts_upto 2 0 k"
    "\<forall>i<k. answer' i = Some AMQPConnectionError"
    "fst (create_connection answer') = Inr (Some k) \<and> answer' k = None
       \<or> (\<exists>x. fst (create_connection answer') = Inl x \<and> answer' k = Some x
             \<and> (x = AMQPConnectionError \<longrightarrow> Suc k = 3))"
    by (auto simp: create_connection_def)
  have pub: "fst (publish_message answer' channel_answer) =
               Inl (if is_AMQPError x then PublishFailed else x)"
    if "fst (create_connection answer') = Inl x" for x
    using that by (cases "create_connection answer'") (simp add: publish_message_def)
  have "fst (create_connection answer') = Inr (Some k) \<and> answer' k = None
           \<or> (\<exists>x. fst (create_connection answer') = Inl x \<and> answer' k = Some x
                 \<and> (x = AMQPConnectionError \<longrightarrow> k = 2)
                 \<and> fst (publish_message answer' channel_answer) =
                     Inl (if is_AMQPError x then PublishFailed else x))"
    using k(4) pub by auto
  then show "\<exists>k<3. snd (create_connection answer') = attempts_upto 2 0 k
        \<and> connects (snd (create_connection answer')) = [0..<Suc k]
        \<and> sleeps (snd (create_connection answer')) = replicate k 2
        \<and> (\<forall>i<k. answer' i = Some AMQPConnectionError)
        \<and> (fst (create_connection answer') = Inr (Some k) \<and> answer' k = None
           \<or> (\<exists>x. fst (create_connection answer') = Inl x \<and> answer' k = Some x
                 \<and> (x = AMQPConnectionError \<longrightarrow> k = 2)
                 \<and> fst (publish_message answer' channel_answer) =
                     Inl (if is_AMQPError x then PublishFailed else x)))"
    using k(1,2,3)
    by (intro exI [of _ k]) (simp add: connects_attempts_upto sleeps_attempts_upto)
qed

theorem broker_connection_is_bounded_witness:
  "fst (setup_rabbitmq broker_down) = Inl AMQPConnectionError
   \<and> connects (snd (setup_rabbitmq broker_down)) = [0, 1, 2, 3, 4]
   \<and> sleeps (snd (setup_rabbitmq broker_down)) = [5, 5, 5, 5]
   \<and> fst (worker_init ''w1'' True None empty_store broker_down 100) = Inl AMQPConnectionError
   \<and> fst (create_connection broker_down) = Inl AMQPConnectionError
   \<and> connects (snd (create_connection broker_down)) = [0, 1, 2]
   \<and> sleeps (snd (create_connection broker_down)) = [2, 2]
   \<and> fst (publish_message broker_down None) = Inl PublishFailed"
proof -
  note t = broker_connection_is_bounded
             [of broker_down "''w1''" True empty_store 100 broker_down None]
  have b: "broker_down i = Some AMQPConnectionError" for i
    by (simp add: broker_down_def)
  from t obtain k where k: "k < 5"
    "connects (snd (setup_rabbitmq broker_down)) = [0..<Suc k]"
    "sleeps (snd (setup_rabbitmq broker_down)) = replicate k 5"
    "fst (setup_rabbitmq broker_down) = Inr (Some k) \<and> broker_down k = None
       \<or> (\<exists>x. fst (setup_rabbitmq broker_down) = Inl x \<and> broker_down k = Some x
             \<and> (x = AMQPConnectionError \<longrightarrow> k = 4)
             \<and> fst (worker_init ''w1'' True None empty_store broker_down 100) = Inl x)"
    by blast
  from k(4) b have k4: "k = 4"
    and w: "fst (setup_rabbitmq broker_down) = Inl AMQPConnectionError"
      "fst (worker_init ''w1'' True None empty_store broker_down 100) = Inl AMQPConnectionError"
    by auto
  from t obtain l where l: "l < 3"
    "connects (snd (create_connection broker_down)) = [0..<Suc l]"
    "sleeps (snd (create_connection broker_down)) = replicate l 2"
    "fst (create_connection broker_down) = Inr (Some l) \<and> broker_down l = None
       \<or> (\<exists>x. fst (create_connection broker_down) = Inl x \<and> broker_down l = Some x
             \<and> (x = AMQPConnectionError \<longrightarrow> l = 2)
             \<and> fst (publish_message broker_down None) =
                 Inl (if is_AMQPError x then PublishFailed else x))"
    by blast
  from l(4) b have l2: "l = 2"
    and p: "fst (create_connection broker_down) = Inl AMQPConnectionError"
      "fst (publish_message broker_down None) = Inl PublishFailed"
    by (auto simp: is_AMQPError_def)
  have u5: "[0..<Suc 4] = [0, 1, 2, 3, 4]" and u3: "[0..<Suc 2] = [0, 1, 2]"
    by (simp_all add: upt_conv_Cons)
  have r4: "replicate 4 (5::nat) = [5, 5, 5, 5]" and r2: "replicate 2 (2::nat) = [2, 2]"
    by (simp_all add: numeral_eq_Suc)
  show ?thesis
    using k(2,3) l(2,3) w p unfolding k4 l2 u5 u3 r4 r2 by blast
qed

end
